theory Spec2Isabelle
  imports Main "HOL-Library.Word"
begin

unbundle bit_operations_syntax

section \<open>SICP packet codec (index.js, lines 16-62)\<close>

text \<open>
  JavaScript numbers that the plugin handles are integers (byte codes, percentages,
  identifiers); they are modelled as \<open>int\<close>. On integers the JavaScript operator
  \<open>x & 0xFF\<close> is \<open>x AND 255\<close>, and \<open>^\<close> on values below 256 is \<open>XOR\<close>.
  A \<open>Buffer\<close> is a list of bytes; \<open>Buffer.from(array)\<close> keeps the low eight bits of
  every element.
\<close>

type_synonym buffer = "8 word list"

definition Buffer_from :: "int list \<Rightarrow> buffer" where
  "Buffer_from arr = map word_of_int arr"

text \<open>\<open>function clamp(n, min, max) { return Math.max(min, Math.min(max, n)); }\<close>\<close>

definition clamp :: "int \<Rightarrow> int \<Rightarrow> int \<Rightarrow> int" where
  "clamp n lo hi = max lo (min hi n)"

text \<open>
  \<open>buildSicpPacket(monitorId, dataBytes, includeGroup, groupId)\<close>: the body, the size
  byte, the checksum loop \<open>for (const b of arr) checksum ^= (b & 0xFF)\<close> and the push.
\<close>

definition packet_body :: "int \<Rightarrow> int list \<Rightarrow> bool \<Rightarrow> int \<Rightarrow> int list" where
  "packet_body monitorId dataBytes includeGroup groupId =
     (if includeGroup then [monitorId AND 255, groupId AND 255] @ dataBytes
      else [monitorId AND 255] @ dataBytes)"

definition checksum_loop :: "int list \<Rightarrow> int" where
  "checksum_loop arr = fold (\<lambda>b checksum. checksum XOR (b AND 255)) arr 0"

definition buildSicpPacket :: "int \<Rightarrow> int list \<Rightarrow> bool \<Rightarrow> int \<Rightarrow> buffer" where
  "buildSicpPacket monitorId dataBytes includeGroup groupId =
     (let body = packet_body monitorId dataBytes includeGroup groupId;
          msgSize = 1 + int (length body) + 1;
          arr = (msgSize AND 255) # body;
          checksum = checksum_loop arr
      in Buffer_from (arr @ [checksum AND 255]))"

text \<open>
  \<open>parseReply(buf)\<close>: the hexadecimal dump \<open>raw\<close> and the three sentinel tests
  \<open>bytes.includes(0x06)\<close>, \<open>bytes.includes(0x15)\<close>, \<open>bytes.includes(0x18)\<close>.
\<close>

definition hex_digit :: "nat \<Rightarrow> char" where
  "hex_digit d = (''0123456789abcdef'') ! (d mod 16)"

definition hex_byte :: "8 word \<Rightarrow> string" where
  "hex_byte b = ''0x'' @ [hex_digit (unat b div 16), hex_digit (unat b mod 16)]"

fun join_space :: "string list \<Rightarrow> string" where
  "join_space [] = []"
| "join_space [x] = x"
| "join_space (x # y # ys) = x @ '' '' @ join_space (y # ys)"

record reply_info =
  raw :: string
  ok :: bool
  nack :: bool
  nav :: bool

definition parseReply :: "buffer \<Rightarrow> reply_info" where
  "parseReply buf =
     \<lparr> raw = join_space (map hex_byte buf),
       ok = List.member buf 0x06,
       nack = List.member buf 0x15,
       nav = List.member buf 0x18 \<rparr>"

text \<open>
  The two notions the specification uses about packets and replies, written from its
  words: the XOR of all bytes of a packet, and an ACK-positive classification.
\<close>

definition xor_sum :: "buffer \<Rightarrow> 8 word" where
  "xor_sum bs = fold (\<lambda>b acc. acc XOR b) bs 0"

definition ack_positive :: "reply_info \<Rightarrow> bool" where
  "ack_positive r \<longleftrightarrow> ok r \<and> \<not> nack r \<and> \<not> nav r"


section \<open>JavaScript values in the configuration\<close>

text \<open>
  Configured command codes, labels and identifiers come from a JSON document: a field
  is missing (\<open>undefined\<close>), a number, a string or a boolean. \<open>truthy\<close> is the
  JavaScript test \<open>if (x)\<close>. A string is the list of its code units, which are taken
  below 256 (Latin-1). \<open>Num n\<close> is the number \<open>n\<close>.
\<close>

datatype jsval = Undefined | Num int | Str string | Bool bool

fun truthy :: "jsval \<Rightarrow> bool" where
  "truthy Undefined = False"
| "truthy (Num n) = (n \<noteq> 0)"
| "truthy (Str s) = (s \<noteq> [])"
| "truthy (Bool b) = b"

subsection \<open>Numbers\<close>

text \<open>
  A JavaScript number is a double. The ones that are read here are integers, infinite
  or \<open>NaN\<close>; \<open>Finite 0\<close> stands for both zeros, which \<open>& 0xFF\<close>, \<open>Number.isNaN\<close> and
  \<open>toString\<close> do not tell apart. An integer below \<open>2 ^ 53\<close> is a double. A larger one
  is rounded to 53 significant bits, to the even neighbour when it lies half way, and
  is infinite from \<open>2 ^ 1024\<close> on: \<open>to_number\<close> is the number that a numeral in the
  configuration or the digits read by \<open>parseInt\<close> denote.
\<close>

datatype number = NaN | Finite int | PosInfinity | NegInfinity

function bit_length :: "int \<Rightarrow> nat" where
  "bit_length n = (if n \<le> 0 then 0 else Suc (bit_length (n div 2)))"
  by pat_completeness auto

termination
  by (relation "measure nat") auto

declare bit_length.simps [simp del]

definition nearest_double :: "int \<Rightarrow> int" where
  "nearest_double n =
     (if n < 2 ^ 53 then n
      else (let e = bit_length n - 53; q = n div 2 ^ e; r = n mod 2 ^ e; h = 2 ^ (e - 1)
            in (if h < r \<or> (r = h \<and> odd q) then q + 1 else q) * 2 ^ e))"

definition to_number :: "int \<Rightarrow> number" where
  "to_number i =
     (let m = nearest_double \<bar>i\<bar>
      in if m < 2 ^ 1024 then Finite (if i < 0 then - m else m)
         else if i < 0 then NegInfinity else PosInfinity)"

text \<open>\<open>x & 0xFF\<close>: \<open>NaN\<close> and the infinities give \<open>0\<close>.\<close>

definition and_0xFF :: "number \<Rightarrow> int" where
  "and_0xFF v = (case v of Finite n \<Rightarrow> n AND 255 | _ \<Rightarrow> 0)"

text \<open>
  \<open>Number.prototype.toString\<close>. The digits are the shortest decimal that reads back as
  the same double, and of those the nearest (\<open>shortest v j\<close> tries to end in \<open>j\<close>
  zeros, then in fewer). Up to 21 digits they are written out; a longer number is
  written as \<open>d.ddde+n\<close>.
\<close>

definition dec_digit :: "int \<Rightarrow> char" where
  "dec_digit d = (''0123456789'') ! nat (d mod 10)"

function show_nat :: "int \<Rightarrow> string" where
  "show_nat n = (if n < 10 then [dec_digit n] else show_nat (n div 10) @ [dec_digit (n mod 10)])"
  by pat_completeness auto

termination
  by (relation "measure nat") auto

declare show_nat.simps [simp del]

fun shortest :: "int \<Rightarrow> nat \<Rightarrow> int" where
  "shortest v 0 = v"
| "shortest v (Suc j) =
     (let p = 10 ^ Suc j; lo = (v div p) * p; hi = lo + p;
          lo_ok = (nearest_double lo = v); hi_ok = (nearest_double hi = v)
      in if lo_ok \<and> hi_ok then
           (if v - lo < hi - v then lo
            else if hi - v < v - lo then hi
            else if even (v div p) then lo else hi)
         else if lo_ok then lo
         else if hi_ok then hi
         else shortest v j)"

definition exponent_form :: "int \<Rightarrow> string" where
  "exponent_form c =
     (let ds = show_nat c;
          sig = rev (dropWhile (\<lambda>d. d = CHR ''0'') (rev ds))
      in (if length sig = 1 then sig else hd sig # CHR ''.'' # tl sig)
         @ ''e+'' @ show_nat (int (length ds) - 1))"

definition nat_toString :: "int \<Rightarrow> string" where
  "nat_toString v =
     (let c = shortest v (length (show_nat v) - 1)
      in if c < 10 ^ 21 then show_nat c else exponent_form c)"

fun Number_toString :: "number \<Rightarrow> string" where
  "Number_toString NaN = ''NaN''"
| "Number_toString PosInfinity = ''Infinity''"
| "Number_toString NegInfinity = ''-Infinity''"
| "Number_toString (Finite i) =
     (if i < 0 then CHR ''-'' # nat_toString (- i) else nat_toString i)"

text \<open>\<open>String(x)\<close>, \<open>x.toString()\<close> and template interpolation.\<close>

fun js_toString :: "jsval \<Rightarrow> string" where
  "js_toString Undefined = ''undefined''"
| "js_toString (Num n) = Number_toString (to_number n)"
| "js_toString (Str s) = s"
| "js_toString (Bool b) = (if b then ''true'' else ''false'')"

subsection \<open>Strings\<close>

text \<open>
  \<open>trim\<close>, \<open>toLowerCase\<close>, \<open>startsWith\<close> and \<open>parseInt\<close>. White space is what
  \<open>trim\<close> and \<open>parseInt\<close> strip: tab, line feed, vertical tab, form feed, carriage
  return, space and the no-break space. The capital letters are \<open>A\<close> to \<open>Z\<close> and,
  from 192 to 222, all but the multiplication sign. \<open>parseInt\<close> skips leading white
  space, reads a sign, for radix 16 an optional \<open>0x\<close> prefix, and then the longest run
  of digits of the radix; there being none it is \<open>NaN\<close>, else the number its digits
  denote.
\<close>

definition is_space :: "char \<Rightarrow> bool" where
  "is_space c \<longleftrightarrow> (of_char c :: nat) \<in> {9, 10, 11, 12, 13, 32, 160}"

definition trim :: "string \<Rightarrow> string" where
  "trim s = rev (dropWhile is_space (rev (dropWhile is_space s)))"

definition lower_char :: "char \<Rightarrow> char" where
  "lower_char c =
     (let n = (of_char c :: nat)
      in if (65 \<le> n \<and> n \<le> 90) \<or> (192 \<le> n \<and> n \<le> 222 \<and> n \<noteq> 215) then char_of (n + 32) else c)"

definition toLowerCase :: "string \<Rightarrow> string" where
  "toLowerCase s = map lower_char s"

definition startsWith :: "string \<Rightarrow> string \<Rightarrow> bool" where
  "startsWith s p \<longleftrightarrow> take (length p) s = p"

definition digit_value :: "char \<Rightarrow> nat" where
  "digit_value c =
     (let n = (of_char c :: nat) in
      if 48 \<le> n \<and> n \<le> 57 then n - 48
      else if 97 \<le> n \<and> n \<le> 122 then n - 87
      else if 65 \<le> n \<and> n \<le> 90 then n - 55
      else 36)"

definition parseInt :: "string \<Rightarrow> nat \<Rightarrow> number" where
  "parseInt str radix =
     (let s0 = dropWhile is_space str;
          negative = startsWith s0 ''-'';
          s1 = (if startsWith s0 ''+'' \<or> startsWith s0 ''-'' then tl s0 else s0);
          s2 = (if radix = 16 \<and> (startsWith s1 ''0x'' \<or> startsWith s1 ''0X'') then drop 2 s1 else s1);
          ds = takeWhile (\<lambda>c. digit_value c < radix) s2;
          magnitude = foldl (\<lambda>a c. a * int radix + int (digit_value c)) 0 ds
      in if ds = [] then NaN
         else to_number (if negative then - magnitude else magnitude))"

text \<open>
  \<open>_parseCode(raw)\<close>. The methods whose JavaScript name starts with an underscore
  carry the prefix \<open>priv_\<close> here.
\<close>

definition priv_parseCode :: "jsval \<Rightarrow> int" where
  "priv_parseCode rawv =
     (case rawv of
        Num n \<Rightarrow> and_0xFF (to_number n)
      | _ \<Rightarrow> (let s = toLowerCase (trim (js_toString rawv))
              in and_0xFF (if startsWith s ''0x'' then parseInt s 16 else parseInt s 10)))"


section \<open>The accessory object and its effects\<close>

text \<open>
  The fields of \<open>PhilipsDLineTelevisionAccessory\<close> that its handlers read and write.
  \<open>this.volume\<close> and \<open>this.brightness\<close> share the fields of a control axis; the
  volume has the mute fields in addition. The fields \<open>min\<close> and \<open>max\<close> are named
  \<open>min_val\<close> and \<open>max_val\<close>, and an input's \<open>identifier\<close> is \<open>ident\<close>.
\<close>

record input_def =
  label :: jsval
  code :: jsval
  ident :: jsval

record axis =
  min_val :: int
  max_val :: int
  setCode :: jsval
  upCode :: jsval
  downCode :: jsval
  current :: int
  stepMs :: int

record volume_axis = axis +
  muteSetCode :: jsval
  muteToggleCode :: jsval
  muted :: bool

text \<open>
  What a handler does besides changing fields is appended to \<open>trace\<close>: a packet handed
  to the TCP client, a \<open>delay(ms)\<close>, a characteristic update pushed to HomeKit, a log
  line, and a callback scheduled with \<open>setTimeout\<close>. A log event keeps the level and
  the fixed part of the message; the values interpolated after it (the raw reply, the
  error, the identifier) are not recorded.
\<close>

datatype service = Television | TelevisionSpeaker | Backlight | InputSwitch string

datatype characteristic = Active | ActiveIdentifier | Volume | Mute | On | Brightness

datatype level = Debug | Info | Warn | Err

datatype event =
    Tx buffer
  | Delay int
  | Update service characteristic jsval
  | Log level string
  | Later int event

record accessory =
  monitorId :: int
  includeGroup :: bool
  groupId :: int
  exposeBrightness :: bool
  inputs :: "input_def list"
  exposeInputSwitches :: bool
  volume :: volume_axis
  brightness :: axis
  active :: int
  activeIdentifier :: jsval
  trace :: "event list"

text \<open>
  Errors are values. \<open>_sendOnce\<close> rejects with \<open>new Error('SICP: timeout')\<close> or with
  the socket's error; the handlers throw the two rejection errors themselves.
\<close>

datatype error = TimeoutError | ConnectionError | DeviceRejected string

text \<open>
  The display and the network are the environment: a \<open>channel\<close> gives the outcome of
  the k-th transmission (counted from 0 over the life of the accessory), a reply buffer or
  an error. A handler running alone finds the send queue idle, so \<open>client.send(pkt)\<close> is
  one call of \<open>_sendOnce(pkt)\<close>; the queue itself is modelled in its own section.
\<close>

type_synonym channel = "nat \<Rightarrow> error + buffer"

type_synonym 'a action = "accessory \<Rightarrow> (error + 'a) \<times> accessory"

definition return :: "'a \<Rightarrow> 'a action" where
  "return a s = (Inr a, s)"

definition throw :: "error \<Rightarrow> 'a action" where
  "throw e s = (Inl e, s)"

definition bind :: "'a action \<Rightarrow> ('a \<Rightarrow> 'b action) \<Rightarrow> 'b action" where
  "bind m f s = (case m s of (Inl e, s') \<Rightarrow> (Inl e, s') | (Inr a, s') \<Rightarrow> f a s')"

definition try_catch :: "'a action \<Rightarrow> (error \<Rightarrow> 'a action) \<Rightarrow> 'a action" where
  "try_catch m h s = (case m s of (Inl e, s') \<Rightarrow> h e s' | (Inr a, s') \<Rightarrow> (Inr a, s'))"

definition emit :: "event list \<Rightarrow> unit action" where
  "emit evs s = (Inr (), s\<lparr>trace := trace s @ evs\<rparr>)"

definition gets :: "(accessory \<Rightarrow> 'a) \<Rightarrow> 'a action" where
  "gets f s = (Inr (f s), s)"

definition modify :: "(accessory \<Rightarrow> accessory) \<Rightarrow> unit action" where
  "modify f s = (Inr (), f s)"

definition delay :: "int \<Rightarrow> unit action" where
  "delay ms = emit [Delay ms]"

definition is_Tx :: "event \<Rightarrow> bool" where
  "is_Tx ev = (case ev of Tx _ \<Rightarrow> True | _ \<Rightarrow> False)"

definition tx_count :: "event list \<Rightarrow> nat" where
  "tx_count evs = length (filter is_Tx evs)"

definition client_send :: "channel \<Rightarrow> buffer \<Rightarrow> buffer action" where
  "client_send chan pkt s = (chan (tx_count (trace s)), s\<lparr>trace := trace s @ [Tx pkt]\<rparr>)"

text \<open>\<open>_send(dataBytes)\<close>\<close>

definition priv_send :: "channel \<Rightarrow> int list \<Rightarrow> buffer action" where
  "priv_send chan dataBytes s =
     client_send chan (buildSicpPacket (monitorId s) dataBytes (includeGroup s) (groupId s)) s"

text \<open>
  The name of an input's switch service,
  \<open>`${inp.label || `Input ${id}`} Switch`\<close> with
  \<open>id = (typeof inp.identifier === 'number') ? inp.identifier : (idx + 1)\<close>.
\<close>

definition input_id :: "input_def \<Rightarrow> nat \<Rightarrow> int" where
  "input_id inp idx = (case ident inp of Num n \<Rightarrow> n | _ \<Rightarrow> int idx + 1)"

definition switch_name :: "input_def \<Rightarrow> nat \<Rightarrow> string" where
  "switch_name inp idx =
     (if truthy (label inp) then js_toString (label inp) else ''Input '' @ js_toString (Num (input_id inp idx)))
     @ '' Switch''"

definition indexed :: "'a list \<Rightarrow> ('a \<times> nat) list" where
  "indexed xs = zip xs [0..<length xs]"

section \<open>Handlers (index.js, lines 308-504)\<close>

text \<open>\<open>handleGetActive()\<close>\<close>

definition handleGetActive :: "channel \<Rightarrow> int action" where
  "handleGetActive chan =
     try_catch
       (bind (gets (\<lambda>s. buildSicpPacket (monitorId s) [0x19] (includeGroup s) (groupId s)))
       (\<lambda>pkt. bind (client_send chan pkt)
       (\<lambda>reply. bind (emit [Log Debug ''GetActive reply:''])
       (\<lambda>_. bind (modify (\<lambda>s.
                 if List.member reply 0x02 then s\<lparr>active := 1\<rparr>
                 else if List.member reply 0x01 then s\<lparr>active := 0\<rparr>
                 else s))
       (\<lambda>_. gets active)))))
       (\<lambda>e. bind (emit [Log Warn ''GetActive failed (TV unreachable?):''])
       (\<lambda>_. bind (modify (\<lambda>s. s\<lparr>active := 0\<rparr>))
       (\<lambda>_. gets active)))"

text \<open>\<open>handleSetActive(value)\<close>\<close>

definition switches_off :: "accessory \<Rightarrow> event list" where
  "switches_off s =
     map (\<lambda>(inp, idx). Update (InputSwitch (switch_name inp idx)) On (Bool False)) (indexed (inputs s))"

definition handleSetActive :: "channel \<Rightarrow> jsval \<Rightarrow> unit action" where
  "handleSetActive chan value =
     (let on = (value = Num 1 \<or> value = Bool True) in
      try_catch
        (bind (gets (\<lambda>s. buildSicpPacket (monitorId s) [0x18, if on then 0x02 else 0x01]
                             (includeGroup s) (groupId s)))
        (\<lambda>pkt. bind (client_send chan pkt)
        (\<lambda>reply. bind (emit [Log Debug ''SetActive reply:''])
        (\<lambda>_. if nack (parseReply reply) \<or> nav (parseReply reply)
              then throw (DeviceRejected ''Device rejected command'')
              else bind (modify (\<lambda>s. s\<lparr>active := (if on then 1 else 0)\<rparr>))
                   (\<lambda>_. bind (gets id)
                   (\<lambda>s. if \<not> on \<and> exposeInputSwitches s then emit (switches_off s)
                         else return ()))))))
        (\<lambda>e. bind (emit [Log Err ''SetActive error:''])
        (\<lambda>_. bind (gets active)
        (\<lambda>a. bind (emit [Update Television Active (Num a)])
        (\<lambda>_. throw e)))))"

text \<open>\<open>_ensureOn()\<close>\<close>

definition priv_ensureOn :: "channel \<Rightarrow> unit action" where
  "priv_ensureOn chan =
     bind (gets active)
     (\<lambda>a. if a \<noteq> 1 then bind (handleSetActive chan (Num 1)) (\<lambda>_. delay 300)
           else return ())"

text \<open>\<open>_codeFromIdentifier(identifier)\<close>; \<open>None\<close> is \<open>null\<close>.\<close>

definition priv_codeFromIdentifier :: "accessory \<Rightarrow> int \<Rightarrow> int option" where
  "priv_codeFromIdentifier s identifier =
     (case find (\<lambda>x. ident x = Num identifier) (inputs s) of
        None \<Rightarrow> None
      | Some inp \<Rightarrow>
          (let rawv = (case code inp of Str c \<Rightarrow> Str c
                                     | Undefined \<Rightarrow> Undefined
                                     | v \<Rightarrow> Str (js_toString v))
           in if \<not> truthy rawv then None
              else (let rs = js_toString rawv;
                        c = (if startsWith (toLowerCase (trim rs)) ''0x'' then parseInt rs 16
                             else parseInt rs 10)
                    in if c = NaN then None else Some (and_0xFF c))))"

text \<open>\<open>_setInputByIdentifier(identifier)\<close>\<close>

definition switches_select :: "accessory \<Rightarrow> int \<Rightarrow> event list" where
  "switches_select s identifier =
     map (\<lambda>(inp, idx). Update (InputSwitch (switch_name inp idx)) On
                          (Bool (input_id inp idx = identifier))) (indexed (inputs s))"

definition priv_setInputByIdentifier :: "channel \<Rightarrow> int \<Rightarrow> unit action" where
  "priv_setInputByIdentifier chan identifier =
     bind (gets (\<lambda>s. priv_codeFromIdentifier s identifier))
     (\<lambda>c. case c of
        None \<Rightarrow> emit [Log Err ''Unknown input identifier:'']
      | Some cd \<Rightarrow>
          bind (priv_send chan [0xAC, cd])
          (\<lambda>reply. bind (emit [Log Debug ''SetInput reply:''])
          (\<lambda>_. if nack (parseReply reply) \<or> nav (parseReply reply)
                then throw (DeviceRejected ''Device rejected input change'')
                else bind (modify (\<lambda>s. s\<lparr>activeIdentifier := Num identifier\<rparr>))
                     (\<lambda>_. bind (emit [Update Television ActiveIdentifier (Num identifier)])
                     (\<lambda>_. bind (gets id)
                     (\<lambda>s. if exposeInputSwitches s then emit (switches_select s identifier)
                           else return ()))))))"

text \<open>\<open>handleSetActiveIdentifier(identifier)\<close>\<close>

definition handleSetActiveIdentifier :: "channel \<Rightarrow> int \<Rightarrow> unit action" where
  "handleSetActiveIdentifier chan identifier =
     bind (priv_ensureOn chan) (\<lambda>_. priv_setInputByIdentifier chan identifier)"

text \<open>
  The relative-mode loop
  \<open>for (let i = 0; i < Math.abs(diff); i++) { await this._send([stepCode]); await delay(stepMs); }\<close>
  with the number of iterations left as its argument.
\<close>

fun step_loop :: "channel \<Rightarrow> int \<Rightarrow> int \<Rightarrow> nat \<Rightarrow> unit action" where
  "step_loop chan stepCode ms 0 = return ()"
| "step_loop chan stepCode ms (Suc n) =
     bind (priv_send chan [stepCode])
     (\<lambda>_. bind (delay ms)
     (\<lambda>_. step_loop chan stepCode ms n))"

text \<open>\<open>handleSetVolume(val)\<close>; \<open>val\<close> is a number, so \<open>Number(val)\<close> is \<open>val\<close>.\<close>

definition handleSetVolume :: "channel \<Rightarrow> int \<Rightarrow> unit action" where
  "handleSetVolume chan val =
     bind (gets (\<lambda>s. clamp val (min_val (volume s)) (max_val (volume s))))
     (\<lambda>target. bind (priv_ensureOn chan)
     (\<lambda>_. bind (gets volume)
     (\<lambda>v. bind
        (if truthy (setCode v) then
           (let c = priv_parseCode (setCode v) in
            if c = 0x44 then bind (priv_send chan [c, target AND 255, 0xFF]) (\<lambda>_. return ())
            else bind (priv_send chan [c, target AND 255]) (\<lambda>_. return ()))
         else if truthy (upCode v) \<and> truthy (downCode v) then
           (let diff = target - current v;
                stepCode = (if diff > 0 then priv_parseCode (upCode v)
                            else priv_parseCode (downCode v))
            in step_loop chan stepCode (stepMs v) (nat \<bar>diff\<bar>))
         else emit [Log Warn ''Volume codes not configured; ignoring setVolume.''])
     (\<lambda>_. bind (modify (\<lambda>s. s\<lparr>volume := (volume s)\<lparr>current := target\<rparr>\<rparr>))
     (\<lambda>_. bind (gets (\<lambda>s. current (volume s)))
     (\<lambda>cur. emit [Update TelevisionSpeaker Volume (Num cur)]))))))"

text \<open>\<open>handleSetMute(val)\<close>\<close>

definition handleSetMute :: "channel \<Rightarrow> jsval \<Rightarrow> unit action" where
  "handleSetMute chan val =
     (let mute = truthy val in
      bind (priv_ensureOn chan)
      (\<lambda>_. bind (gets volume)
      (\<lambda>v. bind
         (if truthy (muteSetCode v) then
            bind (priv_send chan [priv_parseCode (muteSetCode v), if mute then 0x01 else 0x00])
                 (\<lambda>_. return ())
          else if truthy (muteToggleCode v) then
            (if mute \<noteq> muted v then
               bind (priv_send chan [priv_parseCode (muteToggleCode v)]) (\<lambda>_. return ())
             else return ())
          else emit [Log Warn ''Mute codes not configured; ignoring mute.''])
      (\<lambda>_. bind (modify (\<lambda>s. s\<lparr>volume := (volume s)\<lparr>muted := mute\<rparr>\<rparr>))
      (\<lambda>_. bind (gets (\<lambda>s. muted (volume s)))
      (\<lambda>m. emit [Update TelevisionSpeaker Mute (Bool m)]))))))"

text \<open>\<open>_setBrightness(val)\<close>\<close>

definition priv_setBrightness :: "channel \<Rightarrow> int \<Rightarrow> unit action" where
  "priv_setBrightness chan val =
     bind (gets (\<lambda>s. clamp val (min_val (brightness s)) (max_val (brightness s))))
     (\<lambda>target. bind (gets brightness)
     (\<lambda>b. bind
        (if truthy (setCode b) then
           (let c = priv_parseCode (setCode b) in
            if c = 0x32 then
              bind (priv_send chan [c, target AND 255, 0xFF, 0xFF, 0xFF, 0xFF, 0xFF, 0xFF])
                   (\<lambda>_. return ())
            else bind (priv_send chan [c, target AND 255]) (\<lambda>_. return ()))
         else if truthy (upCode b) \<and> truthy (downCode b) then
           (let diff = target - current b;
                stepCode = (if diff > 0 then priv_parseCode (upCode b)
                            else priv_parseCode (downCode b))
            in step_loop chan stepCode (stepMs b) (nat \<bar>diff\<bar>))
         else
           bind (emit [Log Debug ''No brightness codes configured, attempting default SICP 0x32 command.''])
           (\<lambda>_. try_catch
              (bind (priv_send chan [0x32, target AND 255, 0xFF, 0xFF, 0xFF, 0xFF, 0xFF, 0xFF])
                    (\<lambda>_. return ()))
              (\<lambda>e. emit [Log Warn ''Default brightness 0x32 failed:''])))
     (\<lambda>_. bind (modify (\<lambda>s. s\<lparr>brightness := (brightness s)\<lparr>current := target\<rparr>\<rparr>))
     (\<lambda>_. bind (gets id)
     (\<lambda>s. if exposeBrightness s then
             emit [Update Backlight Brightness (Num (current (brightness s))),
                   Update Backlight On (Bool (current (brightness s) > min_val (brightness s)))]
           else return ())))))"

text \<open>
  The three handlers that \<open>_setupServices\<close> registers inline: the \<open>On\<close> and
  \<open>Brightness\<close> characteristics of the backlight service (lines 259-289) and the
  \<open>On\<close> characteristic of the switch of the input with identifier \<open>id\<close> (lines 214-229).
\<close>

definition backlight_On_onSet :: "channel \<Rightarrow> jsval \<Rightarrow> unit action" where
  "backlight_On_onSet chan val =
     bind (gets id)
     (\<lambda>s. if truthy val then
             (if active s \<noteq> 1 then
                emit [Log Info ''Ignoring Backlight On request because TV is OFF.'',
                      Later 100 (Update Backlight On (Bool False))]
              else if current (brightness s) \<le> min_val (brightness s) then
                priv_setBrightness chan (max (min_val (brightness s) + 1) 10)
              else return ())
           else priv_setBrightness chan (min_val (brightness s)))"

definition backlight_Brightness_onSet :: "channel \<Rightarrow> int \<Rightarrow> unit action" where
  "backlight_Brightness_onSet chan val =
     bind (gets active)
     (\<lambda>a. if a \<noteq> 1 then emit [Log Info ''Ignoring Brightness Set request because TV is OFF.'']
           else priv_setBrightness chan val)"

definition other_switches_off :: "accessory \<Rightarrow> int \<Rightarrow> event list" where
  "other_switches_off s i =
     map (\<lambda>(other, j). Update (InputSwitch (switch_name other j)) On (Bool False))
         (filter (\<lambda>(other, j). input_id other j \<noteq> i) (indexed (inputs s)))"

definition inputSwitch_onSet :: "channel \<Rightarrow> int \<Rightarrow> jsval \<Rightarrow> unit action" where
  "inputSwitch_onSet chan i val =
     (if truthy val then
        bind (priv_ensureOn chan)
        (\<lambda>_. bind (priv_setInputByIdentifier chan i)
        (\<lambda>_. bind (gets id)
        (\<lambda>s. emit (other_switches_off s i))))
      else return ())"

section \<open>Construction (index.js, lines 106-164)\<close>

text \<open>
  The configuration object: every field may be missing. Only the fields that the
  handlers above use are kept; \<open>monitorId\<close>, \<open>groupId\<close> and the axis bounds are
  numbers when present.
\<close>

record axis_conf =
  conf_min :: "int option"
  conf_max :: "int option"
  conf_initial :: "int option"
  conf_setCode :: jsval
  conf_upCode :: jsval
  conf_downCode :: jsval
  conf_stepDelayMs :: "int option"
  conf_muteSetCode :: jsval
  conf_muteToggleCode :: jsval

record conf =
  conf_monitorId :: "int option"
  conf_includeGroup :: "bool option"
  conf_groupId :: "int option"
  conf_exposeBrightness :: "bool option"
  conf_inputs :: "input_def list option"
  conf_exposeInputSwitches :: jsval
  conf_volume :: "axis_conf option"
  conf_brightness :: "axis_conf option"

text \<open>\<open>conf.volume?.f ?? d\<close> and \<open>conf.volume?.f\<close>\<close>

definition opt_field :: "axis_conf option \<Rightarrow> (axis_conf \<Rightarrow> 'a option) \<Rightarrow> 'a \<Rightarrow> 'a" where
  "opt_field c f d = (case c of None \<Rightarrow> d | Some a \<Rightarrow> (case f a of None \<Rightarrow> d | Some x \<Rightarrow> x))"

definition opt_code :: "axis_conf option \<Rightarrow> (axis_conf \<Rightarrow> jsval) \<Rightarrow> jsval" where
  "opt_code c f = (case c of None \<Rightarrow> Undefined | Some a \<Rightarrow> f a)"

definition default_inputs :: "input_def list" where
  "default_inputs =
     [\<lparr>label = Str ''HDMI 1'', code = Str ''0x0D'', ident = Num 1\<rparr>,
      \<lparr>label = Str ''HDMI 2'', code = Str ''0x06'', ident = Num 2\<rparr>,
      \<lparr>label = Str ''HDMI 3'', code = Str ''0x0F'', ident = Num 3\<rparr>,
      \<lparr>label = Str ''HDMI 4'', code = Str ''0x19'', ident = Num 4\<rparr>]"

definition constructor :: "conf \<Rightarrow> accessory" where
  "constructor c =
     (let ins = (case conf_inputs c of None \<Rightarrow> default_inputs
                 | Some xs \<Rightarrow> if xs \<noteq> [] then xs else default_inputs)
      in
      \<lparr> monitorId = (case conf_monitorId c of None \<Rightarrow> 1 | Some m \<Rightarrow> m),
        includeGroup = (conf_includeGroup c \<noteq> Some False),
        groupId = (case conf_groupId c of None \<Rightarrow> 0 | Some g \<Rightarrow> g),
        exposeBrightness = (conf_exposeBrightness c \<noteq> Some False),
        inputs = ins,
        exposeInputSwitches = truthy (conf_exposeInputSwitches c),
        volume =
          \<lparr> min_val = opt_field (conf_volume c) conf_min 0,
            max_val = opt_field (conf_volume c) conf_max 100,
            setCode = opt_code (conf_volume c) conf_setCode,
            upCode = opt_code (conf_volume c) conf_upCode,
            downCode = opt_code (conf_volume c) conf_downCode,
            current = clamp (opt_field (conf_volume c) conf_initial 15)
                            (opt_field (conf_volume c) conf_min 0)
                            (opt_field (conf_volume c) conf_max 100),
            stepMs = opt_field (conf_volume c) conf_stepDelayMs 120,
            muteSetCode = opt_code (conf_volume c) conf_muteSetCode,
            muteToggleCode = opt_code (conf_volume c) conf_muteToggleCode,
            muted = False \<rparr>,
        brightness =
          \<lparr> min_val = opt_field (conf_brightness c) conf_min 0,
            max_val = opt_field (conf_brightness c) conf_max 100,
            setCode = opt_code (conf_brightness c) conf_setCode,
            upCode = opt_code (conf_brightness c) conf_upCode,
            downCode = opt_code (conf_brightness c) conf_downCode,
            current = clamp (opt_field (conf_brightness c) conf_initial 50)
                            (opt_field (conf_brightness c) conf_min 0)
                            (opt_field (conf_brightness c) conf_max 100),
            stepMs = opt_field (conf_brightness c) conf_stepDelayMs 120 \<rparr>,
        active = 0,
        activeIdentifier = (case ins of [] \<Rightarrow> Num 1
                            | x # _ \<Rightarrow> (if ident x = Undefined then Num 1 else ident x)),
        trace = [] \<rparr>)"

section \<open>The send queue (index.js, lines 22-40)\<close>


















section \<open>Observations and example devices\<close>

text \<open>
  What the properties below observe of a run: the packets handed to the TCP client, in
  order; the packets for the power query and the power command of a device; and whether
  a reply makes a handler reject (\<open>parsed.nack || parsed.nav\<close>).
\<close>

definition wire :: "event list \<Rightarrow> buffer list" where
  "wire evs = concat (map (\<lambda>ev. case ev of Tx p \<Rightarrow> [p] | _ \<Rightarrow> []) evs)"

definition query_packet :: "accessory \<Rightarrow> buffer" where
  "query_packet s = buildSicpPacket (monitorId s) [0x19] (includeGroup s) (groupId s)"

definition power_packet :: "accessory \<Rightarrow> bool \<Rightarrow> buffer" where
  "power_packet s on =
     buildSicpPacket (monitorId s) [0x18, if on then 0x02 else 0x01] (includeGroup s) (groupId s)"

definition rejected :: "buffer \<Rightarrow> bool" where
  "rejected reply \<longleftrightarrow> nack (parseReply reply) \<or> nav (parseReply reply)"

text \<open>
  A device built from a configuration that sets only the addressing: monitor 1, group
  addressing with group 0, the four default inputs, no volume or brightness codes.
\<close>

definition demo_conf :: conf where
  "demo_conf =
     \<lparr> conf_monitorId = Some 1, conf_includeGroup = Some True, conf_groupId = Some 0,
       conf_exposeBrightness = None, conf_inputs = None, conf_exposeInputSwitches = Undefined,
       conf_volume = None, conf_brightness = None \<rparr>"

definition demo_tv :: accessory where
  "demo_tv = constructor demo_conf"

definition send_packet :: "accessory \<Rightarrow> int list \<Rightarrow> buffer" where
  "send_packet s dataBytes = buildSicpPacket (monitorId s) dataBytes (includeGroup s) (groupId s)"

text \<open>
  Two devices with relative stepping on both axes (brightness up \<open>0x11\<close>, down
  \<open>0x12\<close>; volume up \<open>0x41\<close>, down \<open>0x42\<close>), a display that acknowledges every
  packet, and one that never answers.
\<close>

definition stepper_axis :: "string \<Rightarrow> string \<Rightarrow> axis_conf" where
  "stepper_axis up down =
     \<lparr> conf_min = None, conf_max = None, conf_initial = None, conf_setCode = Undefined,
       conf_upCode = Str up, conf_downCode = Str down, conf_stepDelayMs = None,
       conf_muteSetCode = Undefined, conf_muteToggleCode = Undefined \<rparr>"

definition stepper_tv :: accessory where
  "stepper_tv =
     constructor (demo_conf\<lparr> conf_volume := Some (stepper_axis ''0x41'' ''0x42''),
                             conf_brightness := Some (stepper_axis ''0x11'' ''0x12'') \<rparr>)"

definition ack_channel :: channel where
  "ack_channel k = Inr [0x06]"

definition timeout_channel :: channel where
  "timeout_channel k = Inl TimeoutError"

text \<open>A display that acknowledges the first \<open>n\<close> packets and then drops the connection.\<close>

definition drop_after :: "nat \<Rightarrow> channel" where
  "drop_after n k = (if k < n then Inr [0x06] else Inl ConnectionError)"

subsection \<open>The parts of a handler\<close>

text \<open>
  What \<open>_ensureOn\<close> returns and what it appends to the trace, written out by cases
  (lemma \<open>priv_ensureOn_frame\<close> shows that this is what the code does).
\<close>

definition ensureOn_result :: "channel \<Rightarrow> accessory \<Rightarrow> error + unit" where
  "ensureOn_result chan s =
     (if active s = 1 then Inr ()
      else case chan (tx_count (trace s)) of
             Inl e \<Rightarrow> Inl e
           | Inr reply \<Rightarrow> if rejected reply then Inl (DeviceRejected ''Device rejected command'')
                          else Inr ())"

definition ensureOn_events :: "channel \<Rightarrow> accessory \<Rightarrow> event list" where
  "ensureOn_events chan s =
     (if active s = 1 then []
      else Tx (power_packet s True) #
           (case chan (tx_count (trace s)) of
              Inl e \<Rightarrow> [Log Err ''SetActive error:'', Update Television Active (Num (active s))]
            | Inr reply \<Rightarrow>
                Log Debug ''SetActive reply:'' #
                (if rejected reply
                 then [Log Err ''SetActive error:'', Update Television Active (Num (active s))]
                 else [Delay 300])))"

text \<open>
  The mode dispatch inside \<open>handleSetVolume\<close>, \<open>handleSetMute\<close> and
  \<open>_setBrightness\<close>, the \<open>if / else if / else\<close> between the clamp and the commit,
  under a name of its own, and the characteristic updates that end \<open>_setBrightness\<close>.
  The handlers above are these dispatches between their first and last lines (lemmas
  \<open>handleSetVolume_binds\<close>, \<open>handleSetMute_binds\<close>, \<open>priv_setBrightness_binds\<close>).
\<close>

definition volume_command :: "channel \<Rightarrow> int \<Rightarrow> volume_axis \<Rightarrow> unit action" where
  "volume_command chan target v =
     (if truthy (setCode v) then
           (let c = priv_parseCode (setCode v) in
            if c = 0x44 then bind (priv_send chan [c, target AND 255, 0xFF]) (\<lambda>_. return ())
            else bind (priv_send chan [c, target AND 255]) (\<lambda>_. return ()))
         else if truthy (upCode v) \<and> truthy (downCode v) then
           (let diff = target - current v;
                stepCode = (if diff > 0 then priv_parseCode (upCode v)
                            else priv_parseCode (downCode v))
            in step_loop chan stepCode (stepMs v) (nat \<bar>diff\<bar>))
         else emit [Log Warn ''Volume codes not configured; ignoring setVolume.''])"

definition mute_command :: "channel \<Rightarrow> bool \<Rightarrow> volume_axis \<Rightarrow> unit action" where
  "mute_command chan mute v =
     (if truthy (muteSetCode v) then
            bind (priv_send chan [priv_parseCode (muteSetCode v), if mute then 0x01 else 0x00])
                 (\<lambda>_. return ())
          else if truthy (muteToggleCode v) then
            (if mute \<noteq> muted v then
               bind (priv_send chan [priv_parseCode (muteToggleCode v)]) (\<lambda>_. return ())
             else return ())
          else emit [Log Warn ''Mute codes not configured; ignoring mute.''])"

definition brightness_command :: "channel \<Rightarrow> int \<Rightarrow> axis \<Rightarrow> unit action" where
  "brightness_command chan target b =
     (if truthy (setCode b) then
           (let c = priv_parseCode (setCode b) in
            if c = 0x32 then
              bind (priv_send chan [c, target AND 255, 0xFF, 0xFF, 0xFF, 0xFF, 0xFF, 0xFF])
                   (\<lambda>_. return ())
            else bind (priv_send chan [c, target AND 255]) (\<lambda>_. return ()))
         else if truthy (upCode b) \<and> truthy (downCode b) then
           (let diff = target - current b;
                stepCode = (if diff > 0 then priv_parseCode (upCode b)
                            else priv_parseCode (downCode b))
            in step_loop chan stepCode (stepMs b) (nat \<bar>diff\<bar>))
         else
           bind (emit [Log Debug ''No brightness codes configured, attempting default SICP 0x32 command.''])
           (\<lambda>_. try_catch
              (bind (priv_send chan [0x32, target AND 255, 0xFF, 0xFF, 0xFF, 0xFF, 0xFF, 0xFF])
                    (\<lambda>_. return ()))
              (\<lambda>e. emit [Log Warn ''Default brightness 0x32 failed:''])))"

definition brightness_updates :: "accessory \<Rightarrow> event list" where
  "brightness_updates s =
     (if exposeBrightness s then
        [Update Backlight Brightness (Num (current (brightness s))),
         Update Backlight On (Bool (current (brightness s) > min_val (brightness s)))]
      else [])"

text \<open>The configured mode of an axis, as the dispatch tests it, and the clamped target.\<close>

definition relative_mode :: "'a axis_scheme \<Rightarrow> bool" where
  "relative_mode a \<longleftrightarrow> \<not> truthy (setCode a) \<and> truthy (upCode a) \<and> truthy (downCode a)"

definition unconfigured :: "'a axis_scheme \<Rightarrow> bool" where
  "unconfigured a \<longleftrightarrow> \<not> truthy (setCode a) \<and> \<not> (truthy (upCode a) \<and> truthy (downCode a))"

definition clamped :: "'a axis_scheme \<Rightarrow> int \<Rightarrow> int" where
  "clamped a val = clamp val (min_val a) (max_val a)"

text \<open>
  \<open>steps pkt ms n\<close> is the trace of \<open>n\<close> rounds of the stepping loop: the packet,
  then the delay. \<open>first_failure chan k n\<close> looks at the \<open>n\<close> transmissions from the
  \<open>k\<close>-th on: it is the position, counted from \<open>k\<close>, and the error of the first one
  that the channel fails, and \<open>None\<close> when all of them are answered.
\<close>

definition steps :: "buffer \<Rightarrow> int \<Rightarrow> nat \<Rightarrow> event list" where
  "steps pkt ms n = concat (replicate n [Tx pkt, Delay ms])"

fun first_failure :: "channel \<Rightarrow> nat \<Rightarrow> nat \<Rightarrow> (nat \<times> error) option" where
  "first_failure chan k 0 = None"
| "first_failure chan k (Suc n) =
     (case chan k of
        Inl e \<Rightarrow> Some (0, e)
      | Inr reply \<Rightarrow> map_option (\<lambda>(j, e). (Suc j, e)) (first_failure chan (Suc k) n))"

subsection \<open>Operations\<close>

text \<open>
  The operations HomeKit can invoke on the accessory: the handlers registered by
  \<open>_setupServices\<close>, with \<open>SetBrightness\<close> for \<open>_setBrightness\<close> itself, and
  \<open>GetPower\<close> also being the body of a polling tick.
\<close>

datatype operation =
    GetPower
  | SetPower jsval
  | SetInput int
  | SetVolume int
  | SetMute jsval
  | SetBrightness int
  | BacklightOn jsval
  | BacklightBrightness int
  | SwitchInput int jsval

definition perform :: "channel \<Rightarrow> operation \<Rightarrow> unit action" where
  "perform chan op =
     (case op of
        GetPower \<Rightarrow> bind (handleGetActive chan) (\<lambda>_. return ())
      | SetPower v \<Rightarrow> handleSetActive chan v
      | SetInput i \<Rightarrow> handleSetActiveIdentifier chan i
      | SetVolume x \<Rightarrow> handleSetVolume chan x
      | SetMute m \<Rightarrow> handleSetMute chan m
      | SetBrightness x \<Rightarrow> priv_setBrightness chan x
      | BacklightOn v \<Rightarrow> backlight_On_onSet chan v
      | BacklightBrightness x \<Rightarrow> backlight_Brightness_onSet chan x
      | SwitchInput i v \<Rightarrow> inputSwitch_onSet chan i v)"

text \<open>
  \<open>trace_only m\<close>: the action changes nothing but the trace. \<open>propagates chan m s\<close>:
  when a transmission that \<open>m\<close> makes from \<open>s\<close> fails, \<open>m\<close> fails with that error.
\<close>

definition trace_only :: "'a action \<Rightarrow> bool" where
  "trace_only m \<longleftrightarrow> (\<forall>s. snd (m s) = s\<lparr>trace := trace (snd (m s))\<rparr>)"

definition propagates :: "channel \<Rightarrow> 'a action \<Rightarrow> accessory \<Rightarrow> bool" where
  "propagates chan m s \<longleftrightarrow>
     (\<forall>k e. tx_count (trace s) \<le> k \<and> k < tx_count (trace (snd (m s))) \<and> chan k = Inl e
            \<longrightarrow> fst (m s) = Inl e)"


definition axis_moved :: "'a axis_scheme \<Rightarrow> 'a axis_scheme \<Rightarrow> bool" where
  "axis_moved a a' \<longleftrightarrow>
     min_val a' = min_val a \<and> max_val a' = max_val a
     \<and> (current a' = current a \<or> (\<exists>x. current a' = clamp x (min_val a) (max_val a)))"

definition axes_moved :: "accessory \<Rightarrow> accessory \<Rightarrow> bool" where
  "axes_moved s s' \<longleftrightarrow> axis_moved (volume s) (volume s') \<and> axis_moved (brightness s) (brightness s')"

text \<open>A sequence of operations, each run to completion on the state the previous one left.\<close>

fun run :: "channel \<Rightarrow> operation list \<Rightarrow> accessory \<Rightarrow> accessory" where
  "run chan [] s = s"
| "run chan (op # ops) s = run chan ops (snd (perform chan op s))"

text \<open>
  The five mutating operations of the specification; those that call \<open>_ensureOn\<close>
  first; and the one case where a handler catches a transmission error itself, the
  default \<open>0x32\<close> command of a brightness axis without codes.
\<close>

fun mutating :: "operation \<Rightarrow> bool" where
  "mutating (SetPower v) = True"
| "mutating (SetInput i) = True"
| "mutating (SetVolume x) = True"
| "mutating (SetBrightness x) = True"
| "mutating (SetMute m) = True"
| "mutating other = False"

fun ensures_on :: "operation \<Rightarrow> bool" where
  "ensures_on (SetInput i) = True"
| "ensures_on (SetVolume x) = True"
| "ensures_on (SetMute m) = True"
| "ensures_on other = False"

definition swallows :: "operation \<Rightarrow> accessory \<Rightarrow> bool" where
  "swallows op s \<longleftrightarrow> (case op of SetBrightness x \<Rightarrow> unconfigured (brightness s) | _ \<Rightarrow> False)"

subsection \<open>The send queue, observed and abstracted\<close>





text \<open>
  A single worker that serves the submitted buffers first in, first out: \<open>bufs\<close> are the
  buffers submitted, \<open>outs\<close> the outcomes of the requests it has finished, and \<open>phase\<close>
  says where the next request stands (its job queued, its transmission in flight, its
  reply received, its promise settled). \<open>concrete\<close> builds the promise state that
  corresponds to a worker state, and \<open>wstep\<close> is the worker's reaction to an event; the
  lemmas \<open>sim_step\<close> and \<open>sim_run\<close> show that the promise chain above does what this
  worker does.
\<close>

datatype phase = Idle | Queued | InFlight | Replied "error + buffer" | Caught "error + buffer"

record worker =
  bufs :: "buffer list"
  outs :: "(error + buffer) list"
  phase :: phase









definition wdrain :: "worker \<Rightarrow> worker" where
  "wdrain w =
     (case phase w of
        Idle \<Rightarrow> w
      | InFlight \<Rightarrow> w
      | Queued \<Rightarrow> w\<lparr>phase := InFlight\<rparr>
      | Replied out \<Rightarrow> w\<lparr>outs := outs w @ [out],
                          phase := (if Suc (length (outs w)) < length (bufs w) then InFlight else Idle)\<rparr>
      | Caught out \<Rightarrow> w\<lparr>outs := outs w @ [out],
                         phase := (if Suc (length (outs w)) < length (bufs w) then InFlight else Idle)\<rparr>)"


section \<open>Basic facts\<close>

lemma bind_return [simp]: "bind (return a) f s = f a s"
  by (simp add: bind_def return_def)

lemma bind_throw [simp]: "bind (throw e) f s = (Inl e, s)"
  by (simp add: bind_def throw_def)

lemma bind_gets [simp]: "bind (gets g) f s = f (g s) s"
  by (simp add: bind_def gets_def)

lemma bind_modify [simp]: "bind (modify g) f s = f () (g s)"
  by (simp add: bind_def modify_def)

lemma bind_emit [simp]: "bind (emit evs) f s = f () (s\<lparr>trace := trace s @ evs\<rparr>)"
  by (simp add: bind_def emit_def)

lemma bind_delay [simp]: "bind (delay ms) f s = f () (s\<lparr>trace := trace s @ [Delay ms]\<rparr>)"
  by (simp add: delay_def)

lemma bind_client_send:
  "bind (client_send chan pkt) f s =
     (case chan (tx_count (trace s)) of
        Inl e \<Rightarrow> (Inl e, s\<lparr>trace := trace s @ [Tx pkt]\<rparr>)
      | Inr reply \<Rightarrow> f reply (s\<lparr>trace := trace s @ [Tx pkt]\<rparr>))"
  by (simp add: bind_def client_send_def split: sum.split)

lemma wire_append [simp]: "wire (xs @ ys) = wire xs @ wire ys"
  by (simp add: wire_def)

lemma wire_Nil [simp]: "wire [] = []"
  by (simp add: wire_def)

lemma wire_Cons [simp]: "wire (ev # evs) = (case ev of Tx p \<Rightarrow> [p] | _ \<Rightarrow> []) @ wire evs"
  by (simp add: wire_def)

lemma tx_count_wire: "tx_count evs = length (wire evs)"
  by (induction evs) (auto simp: tx_count_def is_Tx_def split: event.split)

subsection \<open>The checksum\<close>

lemma low8: "(word_of_int (b AND 255) :: 8 word) = word_of_int b"
proof -
  have "(255::int) = mask 8" by (simp add: mask_eq_exp_minus_1)
  then have "b AND 255 = take_bit 8 b" by (simp add: take_bit_eq_mask)
  then show ?thesis by (simp add: word_of_int_eq_iff)
qed

lemma of_int_checksum_fold:
  "(word_of_int (fold (\<lambda>b checksum. checksum XOR (b AND 255)) arr c) :: 8 word)
     = fold (\<lambda>b acc. acc XOR b) (map word_of_int arr) (word_of_int c)"
proof (induction arr arbitrary: c)
  case Nil
  show ?case by simp
next
  case (Cons b arr)
  have "(word_of_int (c XOR (b AND 255)) :: 8 word) = word_of_int c XOR word_of_int b"
    by (simp add: of_int_xor_eq low8)
  with Cons show ?case by simp
qed

lemma xor_sum_snoc: "xor_sum (bs @ [xor_sum bs]) = 0"
  by (simp add: xor_sum_def)

lemma buildSicpPacket_checksum:
  "buildSicpPacket m p g gid =
     (let front = Buffer_from ((1 + int (length (packet_body m p g gid)) + 1) # packet_body m p g gid)
      in front @ [xor_sum front])"
  by (simp add: buildSicpPacket_def Let_def Buffer_from_def checksum_loop_def low8
      of_int_checksum_fold xor_sum_def)

lemma Buffer_from_body:
  "Buffer_from (packet_body m p g gid) =
     word_of_int m # (if g then [word_of_int gid] else []) @ Buffer_from p"
  by (simp add: packet_body_def Buffer_from_def low8)

subsection \<open>The power handlers as one case distinction\<close>

lemma handleGetActive_eq:
  "handleGetActive chan s =
     (let s1 = s\<lparr>trace := trace s @ [Tx (query_packet s)]\<rparr> in
      case chan (tx_count (trace s)) of
        Inl e \<Rightarrow> (Inr 0, s1\<lparr>active := 0, trace := trace s1 @ [Log Warn ''GetActive failed (TV unreachable?):'']\<rparr>)
      | Inr reply \<Rightarrow>
          (let a = (if 0x02 \<in> set reply then 1 else if 0x01 \<in> set reply then 0 else active s)
           in (Inr a, s1\<lparr>active := a, trace := trace s1 @ [Log Debug ''GetActive reply:'']\<rparr>)))"
  by (simp add: handleGetActive_def try_catch_def bind_client_send Let_def query_packet_def
       gets_def split: sum.split)

lemma handleSetActive_eq:
  "handleSetActive chan v s =
     (let on = (v = Num 1 \<or> v = Bool True);
          s1 = s\<lparr>trace := trace s @ [Tx (power_packet s on)]\<rparr>;
          failed = [Log Err ''SetActive error:'', Update Television Active (Num (active s))]
      in case chan (tx_count (trace s)) of
           Inl e \<Rightarrow> (Inl e, s1\<lparr>trace := trace s1 @ failed\<rparr>)
         | Inr reply \<Rightarrow>
             if rejected reply
             then (Inl (DeviceRejected ''Device rejected command''),
                   s1\<lparr>trace := trace s1 @ [Log Debug ''SetActive reply:''] @ failed\<rparr>)
             else (Inr (), s1\<lparr>active := (if on then 1 else 0),
                      trace := trace s1 @ [Log Debug ''SetActive reply:'']
                               @ (if \<not> on \<and> exposeInputSwitches s then switches_off s else [])\<rparr>))"
  by (simp add: handleSetActive_def try_catch_def bind_client_send Let_def power_packet_def
      rejected_def return_def throw_def emit_def switches_off_def split: sum.split)

subsection \<open>The handlers, step by step\<close>

lemma priv_ensureOn_eq:
  "priv_ensureOn chan s =
     (if active s = 1 then (Inr (), s)
      else (let s1 = s\<lparr>trace := trace s @ [Tx (power_packet s True)]\<rparr>;
                failed = [Log Err ''SetActive error:'', Update Television Active (Num (active s))]
            in case chan (tx_count (trace s)) of
                 Inl e \<Rightarrow> (Inl e, s1\<lparr>trace := trace s1 @ failed\<rparr>)
               | Inr reply \<Rightarrow>
                   if rejected reply
                   then (Inl (DeviceRejected ''Device rejected command''),
                         s1\<lparr>trace := trace s1 @ [Log Debug ''SetActive reply:''] @ failed\<rparr>)
                   else (Inr (), s1\<lparr>active := 1,
                           trace := trace s1 @ [Log Debug ''SetActive reply:'', Delay 300]\<rparr>)))"
proof -
  have "priv_ensureOn chan s =
          (if active s \<noteq> 1 then bind (handleSetActive chan (Num 1)) (\<lambda>_. delay 300) s
           else (Inr (), s))"
    by (simp add: priv_ensureOn_def return_def)
  then show ?thesis
    by (simp add: bind_def [of "handleSetActive chan (Num 1)"] handleSetActive_eq Let_def
          delay_def emit_def split: sum.split)
qed

lemma priv_ensureOn_frame:
  "priv_ensureOn chan s =
     (ensureOn_result chan s,
      s\<lparr>active := (if ensureOn_result chan s = Inr () then 1 else active s),
        trace := trace s @ ensureOn_events chan s\<rparr>)"
  by (simp add: priv_ensureOn_eq ensureOn_result_def ensureOn_events_def Let_def split: sum.split)

lemma wire_ensureOn_events:
  "wire (ensureOn_events chan s) = (if active s = 1 then [] else [power_packet s True])"
  by (simp add: ensureOn_events_def split: sum.split)

lemma setInput_unknown:
  assumes "find (\<lambda>x. ident x = Num i) (inputs s) = None"
  shows "priv_setInputByIdentifier chan i s
           = (Inr (), s\<lparr>trace := trace s @ [Log Err ''Unknown input identifier:'']\<rparr>)"
  using assms by (simp add: priv_setInputByIdentifier_def priv_codeFromIdentifier_def emit_def)

lemma bind_eq:
  "bind m f s = (case m s of (Inl e, s') \<Rightarrow> (Inl e, s') | (Inr a, s') \<Rightarrow> f a s')"
  by (simp add: bind_def)

lemma handleSetVolume_eq:
  "handleSetVolume chan val s =
     (let target = clamp val (min_val (volume s)) (max_val (volume s)) in
      case priv_ensureOn chan s of
        (Inl e, s1) \<Rightarrow> (Inl e, s1)
      | (Inr _, s1) \<Rightarrow>
          (case volume_command chan target (volume s1) s1 of
             (Inl e, s2) \<Rightarrow> (Inl e, s2)
           | (Inr _, s2) \<Rightarrow>
               (Inr (), s2\<lparr>volume := (volume s2)\<lparr>current := target\<rparr>,
                          trace := trace s2 @ [Update TelevisionSpeaker Volume (Num target)]\<rparr>)))"
  unfolding handleSetVolume_def volume_command_def [symmetric]
  by (simp add: Let_def bind_eq [of "priv_ensureOn chan"] bind_eq [of "volume_command chan _ _"]
        emit_def split: prod.split sum.split)

lemma handleSetMute_eq:
  "handleSetMute chan val s =
     (case priv_ensureOn chan s of
        (Inl e, s1) \<Rightarrow> (Inl e, s1)
      | (Inr _, s1) \<Rightarrow>
          (case mute_command chan (truthy val) (volume s1) s1 of
             (Inl e, s2) \<Rightarrow> (Inl e, s2)
           | (Inr _, s2) \<Rightarrow>
               (Inr (), s2\<lparr>volume := (volume s2)\<lparr>muted := truthy val\<rparr>,
                          trace := trace s2 @ [Update TelevisionSpeaker Mute (Bool (truthy val))]\<rparr>)))"
  unfolding handleSetMute_def mute_command_def [symmetric]
  by (simp add: Let_def bind_eq [of "priv_ensureOn chan"] bind_eq [of "mute_command chan _ _"]
        emit_def split: prod.split sum.split)

lemma priv_setBrightness_eq:
  "priv_setBrightness chan val s =
     (let target = clamp val (min_val (brightness s)) (max_val (brightness s)) in
      case brightness_command chan target (brightness s) s of
        (Inl e, s2) \<Rightarrow> (Inl e, s2)
      | (Inr _, s2) \<Rightarrow>
          (let s3 = s2\<lparr>brightness := (brightness s2)\<lparr>current := target\<rparr>\<rparr>
           in (Inr (), s3\<lparr>trace := trace s3 @ brightness_updates s3\<rparr>)))"
  unfolding priv_setBrightness_def brightness_command_def [symmetric]
  by (simp add: Let_def bind_eq [of "brightness_command chan _ _"] brightness_updates_def
        emit_def return_def split: prod.split sum.split)

lemma priv_send_eq:
  "priv_send chan dataBytes s =
     (chan (tx_count (trace s)), s\<lparr>trace := trace s @ [Tx (send_packet s dataBytes)]\<rparr>)"
  by (simp add: priv_send_def client_send_def send_packet_def)

lemma tx_count_append [simp]: "tx_count (xs @ ys) = tx_count xs + tx_count ys"
  by (simp add: tx_count_def)

lemma tx_count_simps [simp]:
  "tx_count [] = 0"
  "tx_count (Tx p # evs) = Suc (tx_count evs)"
  "tx_count (Delay ms # evs) = tx_count evs"
  "tx_count (Update sv ch v # evs) = tx_count evs"
  "tx_count (Log lv msg # evs) = tx_count evs"
  "tx_count (Later ms ev # evs) = tx_count evs"
  by (simp_all add: tx_count_def is_Tx_def)

lemma first_failure_None:
  "first_failure chan k n = None \<longleftrightarrow> (\<forall>i<n. \<exists>reply. chan (k + i) = Inr reply)"
proof (induction n arbitrary: k)
  case 0
  show ?case by simp
next
  case (Suc n)
  show ?case
  proof (cases "chan k")
    case (Inl e)
    then have "\<not> (\<forall>i<Suc n. \<exists>reply. chan (k + i) = Inr reply)"
      by (auto intro!: exI [of _ 0])
    with Inl show ?thesis by simp
  next
    case (Inr reply)
    have "(\<forall>i<Suc n. \<exists>r. chan (k + i) = Inr r) \<longleftrightarrow> (\<forall>i<n. \<exists>r. chan (Suc k + i) = Inr r)"
    proof
      assume a: "\<forall>i<Suc n. \<exists>r. chan (k + i) = Inr r"
      show "\<forall>i<n. \<exists>r. chan (Suc k + i) = Inr r"
      proof (intro allI impI)
        fix i assume "i < n"
        with a have "\<exists>r. chan (k + Suc i) = Inr r" by blast
        then show "\<exists>r. chan (Suc k + i) = Inr r" by simp
      qed
    next
      assume a: "\<forall>i<n. \<exists>r. chan (Suc k + i) = Inr r"
      show "\<forall>i<Suc n. \<exists>r. chan (k + i) = Inr r"
      proof (intro allI impI)
        fix i assume i: "i < Suc n"
        show "\<exists>r. chan (k + i) = Inr r"
        proof (cases i)
          case 0
          with Inr show ?thesis by simp
        next
          case (Suc i')
          with i a have "\<exists>r. chan (Suc k + i') = Inr r" by simp
          with Suc show ?thesis by simp
        qed
      qed
    qed
    with Inr Suc.IH [of "Suc k"] show ?thesis by simp
  qed
qed

lemma first_failure_Some:
  "first_failure chan k n = Some (j, e) \<longleftrightarrow>
     j < n \<and> chan (k + j) = Inl e \<and> (\<forall>i<j. \<exists>reply. chan (k + i) = Inr reply)"
proof (induction n arbitrary: k j)
  case 0
  show ?case by simp
next
  case (Suc n)
  show ?case
  proof (cases "chan k")
    case (Inl e')
    show ?thesis
    proof (cases j)
      case 0
      with Inl show ?thesis by auto
    next
      case (Suc j')
      have "\<not> (\<forall>i<j. \<exists>reply. chan (k + i) = Inr reply)"
        using Inl Suc by (auto intro!: exI [of _ 0])
      with Inl Suc show ?thesis by simp
    qed
  next
    case (Inr reply)
    show ?thesis
    proof (cases j)
      case 0
      with Inr show ?thesis by (auto split: option.splits)
    next
      case (Suc j')
      have all: "(\<forall>i<Suc j'. \<exists>r. chan (k + i) = Inr r) \<longleftrightarrow> (\<forall>i<j'. \<exists>r. chan (Suc k + i) = Inr r)"
      proof
        assume a: "\<forall>i<Suc j'. \<exists>r. chan (k + i) = Inr r"
        show "\<forall>i<j'. \<exists>r. chan (Suc k + i) = Inr r"
        proof (intro allI impI)
          fix i assume "i < j'"
          with a have "\<exists>r. chan (k + Suc i) = Inr r" by blast
          then show "\<exists>r. chan (Suc k + i) = Inr r" by simp
        qed
      next
        assume a: "\<forall>i<j'. \<exists>r. chan (Suc k + i) = Inr r"
        show "\<forall>i<Suc j'. \<exists>r. chan (k + i) = Inr r"
        proof (intro allI impI)
          fix i assume i: "i < Suc j'"
          show "\<exists>r. chan (k + i) = Inr r"
          proof (cases i)
            case 0
            with Inr show ?thesis by simp
          next
            case (Suc i')
            with i a have "\<exists>r. chan (Suc k + i') = Inr r" by simp
            with Suc show ?thesis by simp
          qed
        qed
      qed
      have "first_failure chan k (Suc n) = Some (j, e)
              \<longleftrightarrow> first_failure chan (Suc k) n = Some (j', e)"
        using Inr Suc by (auto split: option.splits)
      also have "\<dots> \<longleftrightarrow> j' < n \<and> chan (Suc k + j') = Inl e
                   \<and> (\<forall>i<j'. \<exists>reply. chan (Suc k + i) = Inr reply)"
        by (rule Suc.IH)
      finally show ?thesis using Suc all by simp
    qed
  qed
qed

lemma step_loop_eq:
  "step_loop chan c ms n s =
     (case first_failure chan (tx_count (trace s)) n of
        None \<Rightarrow> (Inr (), s\<lparr>trace := trace s @ steps (send_packet s [c]) ms n\<rparr>)
      | Some (j, e) \<Rightarrow>
          (Inl e, s\<lparr>trace := trace s @ steps (send_packet s [c]) ms j @ [Tx (send_packet s [c])]\<rparr>))"
proof (induction n arbitrary: s)
  case 0
  show ?case by (simp add: return_def steps_def)
next
  case (Suc n)
  let ?s2 = "s\<lparr>trace := trace s @ [Tx (send_packet s [c]), Delay ms]\<rparr>"
  have p: "send_packet ?s2 [c] = send_packet s [c]"
    by (simp add: send_packet_def)
  have k: "tx_count (trace ?s2) = Suc (tx_count (trace s))"
    by simp
  show ?case
  proof (cases "chan (tx_count (trace s))")
    case (Inl e)
    then show ?thesis
      by (simp add: bind_eq [of "priv_send chan _"] priv_send_eq steps_def)
  next
    case (Inr reply)
    then have "step_loop chan c ms (Suc n) s = step_loop chan c ms n ?s2"
      by (simp add: bind_eq [of "priv_send chan _"] priv_send_eq delay_def emit_def)
    also note Suc.IH [of ?s2]
    finally show ?thesis
      using Inr by (simp add: p steps_def split: option.split)
  qed
qed

lemma brightness_stepping:
  assumes "relative_mode (brightness s)"
  shows "priv_setBrightness chan val s =
     (let b = brightness s;
          target = clamp val (min_val b) (max_val b);
          n = nat \<bar>target - current b\<bar>;
          pkt = send_packet s [if target > current b then priv_parseCode (upCode b)
                               else priv_parseCode (downCode b)]
      in case first_failure chan (tx_count (trace s)) n of
           None \<Rightarrow>
             (Inr (),
              s\<lparr>brightness := b\<lparr>current := target\<rparr>,
                trace := trace s @ steps pkt (stepMs b) n
                         @ brightness_updates (s\<lparr>brightness := b\<lparr>current := target\<rparr>\<rparr>)\<rparr>)
         | Some (j, e) \<Rightarrow>
             (Inl e, s\<lparr>trace := trace s @ steps pkt (stepMs b) j @ [Tx pkt]\<rparr>))"
proof -
  let ?b = "brightness s"
  let ?t = "clamp val (min_val ?b) (max_val ?b)"
  let ?c = "if ?t > current ?b then priv_parseCode (upCode ?b) else priv_parseCode (downCode ?b)"
  have "brightness_command chan ?t ?b s =
          step_loop chan ?c (stepMs ?b) (nat \<bar>?t - current ?b\<bar>) s"
    using assms by (simp add: brightness_command_def relative_mode_def Let_def)
  then show ?thesis
    by (simp add: priv_setBrightness_eq step_loop_eq Let_def brightness_updates_def
          split: option.split)
qed

lemma volume_stepping:
  assumes "relative_mode (volume s)"
  shows "handleSetVolume chan val s =
     (case priv_ensureOn chan s of
        (Inl e, s1) \<Rightarrow> (Inl e, s1)
      | (Inr u, s1) \<Rightarrow>
          (let v = volume s;
               target = clamp val (min_val v) (max_val v);
               n = nat \<bar>target - current v\<bar>;
               pkt = send_packet s [if target > current v then priv_parseCode (upCode v)
                                    else priv_parseCode (downCode v)]
           in case first_failure chan (tx_count (trace s1)) n of
                None \<Rightarrow>
                  (Inr (),
                   s1\<lparr>volume := v\<lparr>current := target\<rparr>,
                      trace := trace s1 @ steps pkt (stepMs v) n
                               @ [Update TelevisionSpeaker Volume (Num target)]\<rparr>)
              | Some (j, e) \<Rightarrow>
                  (Inl e, s1\<lparr>trace := trace s1 @ steps pkt (stepMs v) j @ [Tx pkt]\<rparr>)))"
proof -
  let ?v = "volume s"
  let ?t = "clamp val (min_val ?v) (max_val ?v)"
  let ?c = "if ?t > current ?v then priv_parseCode (upCode ?v) else priv_parseCode (downCode ?v)"
  obtain r s1 where e: "priv_ensureOn chan s = (r, s1)"
    by (cases "priv_ensureOn chan s")
  then have s1: "s1 = s\<lparr>active := (if ensureOn_result chan s = Inr () then 1 else active s),
                        trace := trace s @ ensureOn_events chan s\<rparr>"
    by (auto simp: priv_ensureOn_frame)
  have v: "volume s1 = ?v" and p: "send_packet s1 = send_packet s"
    by (simp_all add: s1 send_packet_def fun_eq_iff)
  have "volume_command chan ?t (volume s1) s1 =
          step_loop chan ?c (stepMs ?v) (nat \<bar>?t - current ?v\<bar>) s1"
    using assms v by (simp add: volume_command_def relative_mode_def Let_def)
  then show ?thesis
    using e v p
    by (simp add: handleSetVolume_eq step_loop_eq Let_def split: option.split sum.split)
qed

lemma trace_onlyI: "(\<And>s. snd (m s) = s\<lparr>trace := trace (snd (m s))\<rparr>) \<Longrightarrow> trace_only m"
  by (simp add: trace_only_def)

lemma trace_onlyD: "trace_only m \<Longrightarrow> m s = (r, s') \<Longrightarrow> s' = s\<lparr>trace := trace s'\<rparr>"
  by (simp add: trace_only_def) (metis snd_conv)

lemma trace_only_return [intro!]: "trace_only (return a)"
  by (rule trace_onlyI) (simp add: return_def)

lemma trace_only_emit [intro!]: "trace_only (emit evs)"
  by (rule trace_onlyI) (simp add: emit_def)

lemma trace_only_delay [intro!]: "trace_only (delay ms)"
  by (simp add: delay_def trace_only_emit)

lemma trace_only_priv_send [intro!]: "trace_only (priv_send chan d)"
  by (rule trace_onlyI) (simp add: priv_send_eq)

lemma trace_only_bind [intro!]:
  assumes "trace_only m" and "\<And>a. trace_only (f a)"
  shows "trace_only (bind m f)"
proof (rule trace_onlyI)
  fix s
  obtain r s1 where m: "m s = (r, s1)" by (cases "m s")
  from trace_onlyD [OF assms(1) m] have s1: "s1 = s\<lparr>trace := trace s1\<rparr>" .
  show "snd (bind m f s) = s\<lparr>trace := trace (snd (bind m f s))\<rparr>"
  proof (cases r)
    case (Inl e)
    with m s1 show ?thesis by (simp add: bind_def)
  next
    case (Inr a)
    obtain r2 s2 where f: "f a s1 = (r2, s2)" by (cases "f a s1")
    from trace_onlyD [OF assms(2) f] have "s2 = s1\<lparr>trace := trace s2\<rparr>" .
    with s1 have "s2 = s\<lparr>trace := trace s2\<rparr>"
      by (metis accessory.update_convs(11) accessory.surjective)
    with Inr m f show ?thesis by (simp add: bind_def)
  qed
qed

lemma trace_only_try_catch [intro!]:
  assumes "trace_only m" and "\<And>e. trace_only (h e)"
  shows "trace_only (try_catch m h)"
proof (rule trace_onlyI)
  fix s
  obtain r s1 where m: "m s = (r, s1)" by (cases "m s")
  from trace_onlyD [OF assms(1) m] have s1: "s1 = s\<lparr>trace := trace s1\<rparr>" .
  show "snd (try_catch m h s) = s\<lparr>trace := trace (snd (try_catch m h s))\<rparr>"
  proof (cases r)
    case (Inr a)
    with m s1 show ?thesis by (simp add: try_catch_def)
  next
    case (Inl e)
    obtain r2 s2 where f: "h e s1 = (r2, s2)" by (cases "h e s1")
    from trace_onlyD [OF assms(2) f] have "s2 = s1\<lparr>trace := trace s2\<rparr>" .
    with s1 have "s2 = s\<lparr>trace := trace s2\<rparr>"
      by (metis accessory.update_convs(11) accessory.surjective)
    with Inl m f show ?thesis by (simp add: try_catch_def)
  qed
qed

lemma trace_only_step_loop [intro!]: "trace_only (step_loop chan c ms n)"
  by (induction n) auto

lemma trace_only_volume_command: "trace_only (volume_command chan t v)"
  by (auto simp: volume_command_def Let_def)

lemma trace_only_mute_command: "trace_only (mute_command chan m v)"
  by (auto simp: mute_command_def)

lemma trace_only_brightness_command: "trace_only (brightness_command chan t b)"
  by (auto simp: brightness_command_def Let_def)

lemma propagates_bind:
  assumes "propagates chan m s"
    and "\<And>a s1. m s = (Inr a, s1) \<Longrightarrow> propagates chan (f a) s1"
  shows "propagates chan (bind m f) s"
proof -
  obtain r s1 where m: "m s = (r, s1)" by (cases "m s")
  show ?thesis
  proof (cases r)
    case (Inl e)
    with m assms(1) show ?thesis by (simp add: propagates_def bind_def)
  next
    case (Inr a)
    from assms(2) [of a s1] m Inr have p2: "propagates chan (f a) s1" by simp
    show ?thesis
      unfolding propagates_def
    proof (intro allI impI)
      fix k e
      assume h: "tx_count (trace s) \<le> k \<and> k < tx_count (trace (snd (bind m f s))) \<and> chan k = Inl e"
      have b: "bind m f s = f a s1" using m Inr by (simp add: bind_def)
      show "fst (bind m f s) = Inl e"
      proof (cases "k < tx_count (trace s1)")
        case True
        with h assms(1) m have "fst (m s) = Inl e" by (fastforce simp: propagates_def)
        with m Inr show ?thesis by simp
      next
        case False
        then have "tx_count (trace s1) \<le> k" by simp
        with h b p2 show ?thesis by (fastforce simp: propagates_def)
      qed
    qed
  qed
qed

lemma propagates_quiet:
  "tx_count (trace (snd (m s))) \<le> tx_count (trace s) \<Longrightarrow> propagates chan m s"
  by (auto simp: propagates_def)

lemma propagates_single:
  assumes "tx_count (trace (snd (m s))) \<le> Suc (tx_count (trace s))"
    and "\<And>e. chan (tx_count (trace s)) = Inl e \<Longrightarrow> fst (m s) = Inl e"
  shows "propagates chan m s"
  unfolding propagates_def
proof (intro allI impI)
  fix k e
  assume h: "tx_count (trace s) \<le> k \<and> k < tx_count (trace (snd (m s))) \<and> chan k = Inl e"
  with assms(1) have "k = tx_count (trace s)" by linarith
  with h assms(2) show "fst (m s) = Inl e" by simp
qed

lemma propagates_return [intro!]: "propagates chan (return a) s"
  by (rule propagates_quiet) (simp add: return_def)

lemma propagates_throw [intro!]: "propagates chan (throw e) s"
  by (rule propagates_quiet) (simp add: throw_def)

lemma propagates_gets [intro!]: "propagates chan (gets g) s"
  by (rule propagates_quiet) (simp add: gets_def)

lemma propagates_emit [intro!]: "tx_count evs = 0 \<Longrightarrow> propagates chan (emit evs) s"
  by (rule propagates_quiet) (simp add: emit_def)

lemma propagates_delay [intro!]: "propagates chan (delay ms) s"
  by (rule propagates_quiet) (simp add: delay_def emit_def)

lemma propagates_priv_send [intro!]: "propagates chan (priv_send chan d) s"
  by (rule propagates_single) (simp_all add: priv_send_eq)

lemma propagates_step_loop [intro!]: "propagates chan (step_loop chan c ms n) s"
  by (induction n arbitrary: s) (auto intro!: propagates_bind)

lemma tx_count_switches_off [simp]: "tx_count (switches_off s) = 0"
  by (simp add: switches_off_def tx_count_def is_Tx_def filter_map o_def split_def)

lemma propagates_modify:
  "tx_count (trace (h s)) \<le> tx_count (trace s) \<Longrightarrow> propagates chan (modify h) s"
  by (rule propagates_quiet) (simp add: modify_def)

lemma propagates_handleSetActive [intro!]: "propagates chan (handleSetActive chan v) s"
  by (rule propagates_single) (simp_all add: handleSetActive_eq Let_def split: sum.split)

lemma propagates_ensureOn [intro!]: "propagates chan (priv_ensureOn chan) s"
proof (cases "active s = 1")
  case True
  then show ?thesis by (intro propagates_quiet) (simp add: priv_ensureOn_eq)
next
  case False
  then show ?thesis
    by (intro propagates_single) (simp_all add: priv_ensureOn_eq Let_def split: sum.split)
qed

lemma propagates_volume_command [intro!]: "propagates chan (volume_command chan t v) s"
  by (auto simp: volume_command_def Let_def intro!: propagates_bind)

lemma propagates_mute_command [intro!]: "propagates chan (mute_command chan m v) s"
  by (auto simp: mute_command_def intro!: propagates_bind)

lemma propagates_brightness_command [intro!]:
  "\<not> unconfigured b \<Longrightarrow> propagates chan (brightness_command chan t b) s"
  by (auto simp: brightness_command_def unconfigured_def Let_def intro!: propagates_bind)

lemma propagates_congI: "m s = m' s \<Longrightarrow> propagates chan m' s \<Longrightarrow> propagates chan m s"
  by (simp add: propagates_def)

lemma handleSetVolume_binds:
  "handleSetVolume chan val =
     bind (gets (\<lambda>s. clamp val (min_val (volume s)) (max_val (volume s))))
     (\<lambda>target. bind (priv_ensureOn chan)
     (\<lambda>_. bind (gets volume)
     (\<lambda>v. bind (volume_command chan target v)
     (\<lambda>_. bind (modify (\<lambda>s. s\<lparr>volume := (volume s)\<lparr>current := target\<rparr>\<rparr>))
     (\<lambda>_. bind (gets (\<lambda>s. current (volume s)))
     (\<lambda>cur. emit [Update TelevisionSpeaker Volume (Num cur)]))))))"
  unfolding handleSetVolume_def volume_command_def by (rule refl)

lemma handleSetMute_binds:
  "handleSetMute chan val =
      bind (priv_ensureOn chan)
      (\<lambda>_. bind (gets volume)
      (\<lambda>v. bind (mute_command chan (truthy val) v)
      (\<lambda>_. bind (modify (\<lambda>s. s\<lparr>volume := (volume s)\<lparr>muted := truthy val\<rparr>\<rparr>))
      (\<lambda>_. bind (gets (\<lambda>s. muted (volume s)))
      (\<lambda>m. emit [Update TelevisionSpeaker Mute (Bool m)])))))"
  unfolding handleSetMute_def mute_command_def Let_def by (rule refl)

lemma propagates_handleSetVolume: "propagates chan (handleSetVolume chan val) s"
  unfolding handleSetVolume_binds
  by (intro propagates_bind propagates_gets propagates_ensureOn propagates_volume_command
        propagates_modify propagates_emit) simp_all

lemma propagates_handleSetMute: "propagates chan (handleSetMute chan val) s"
  unfolding handleSetMute_binds
  by (intro propagates_bind propagates_gets propagates_ensureOn propagates_mute_command
        propagates_modify propagates_emit) simp_all

lemma priv_setInputByIdentifier_eq:
  "priv_setInputByIdentifier chan i s =
     (case priv_codeFromIdentifier s i of
        None \<Rightarrow> (Inr (), s\<lparr>trace := trace s @ [Log Err ''Unknown input identifier:'']\<rparr>)
      | Some cd \<Rightarrow>
          (let s1 = s\<lparr>trace := trace s @ [Tx (send_packet s [0xAC, cd])]\<rparr> in
           case chan (tx_count (trace s)) of
             Inl e \<Rightarrow> (Inl e, s1)
           | Inr reply \<Rightarrow>
               if rejected reply
               then (Inl (DeviceRejected ''Device rejected input change''),
                     s1\<lparr>trace := trace s1 @ [Log Debug ''SetInput reply:'']\<rparr>)
               else (Inr (), s1\<lparr>activeIdentifier := Num i,
                        trace := trace s1 @ [Log Debug ''SetInput reply:'',
                                             Update Television ActiveIdentifier (Num i)]
                                 @ (if exposeInputSwitches s then switches_select s i else [])\<rparr>)))"
  by (simp add: priv_setInputByIdentifier_def bind_eq [of "priv_send chan _"] priv_send_eq
        Let_def rejected_def emit_def return_def throw_def switches_select_def
        split: option.split sum.split)

lemma propagates_setInput [intro!]: "propagates chan (priv_setInputByIdentifier chan i) s"
proof (cases "priv_codeFromIdentifier s i")
  case None
  then show ?thesis
    by (intro propagates_quiet) (simp add: priv_setInputByIdentifier_eq)
next
  case (Some cd)
  then show ?thesis
    by (intro propagates_single)
       (simp_all add: priv_setInputByIdentifier_eq Let_def switches_select_def tx_count_def
          is_Tx_def filter_map o_def split_def split: sum.split)
qed

lemma propagates_handleSetActiveIdentifier:
  "propagates chan (handleSetActiveIdentifier chan i) s"
  unfolding handleSetActiveIdentifier_def
  by (intro propagates_bind propagates_ensureOn propagates_setInput)

lemma priv_setBrightness_binds:
  "priv_setBrightness chan val =
     bind (gets (\<lambda>s. clamp val (min_val (brightness s)) (max_val (brightness s))))
     (\<lambda>target. bind (gets brightness)
     (\<lambda>b. bind (brightness_command chan target b)
     (\<lambda>_. bind (modify (\<lambda>s. s\<lparr>brightness := (brightness s)\<lparr>current := target\<rparr>\<rparr>))
     (\<lambda>_. bind (gets id)
     (\<lambda>s. if exposeBrightness s then
             emit [Update Backlight Brightness (Num (current (brightness s))),
                   Update Backlight On (Bool (current (brightness s) > min_val (brightness s)))]
           else return ())))))"
  unfolding priv_setBrightness_def brightness_command_def by (rule refl)

lemma propagates_if:
  "(c \<Longrightarrow> propagates chan m s) \<Longrightarrow> (\<not> c \<Longrightarrow> propagates chan m' s)
   \<Longrightarrow> propagates chan (if c then m else m') s"
  by simp

lemma gets_result: "gets g s = (Inr a, s1) \<Longrightarrow> a = g s \<and> s1 = s"
  by (auto simp: gets_def)

lemma propagates_priv_setBrightness:
  assumes "\<not> unconfigured (brightness s)"
  shows "propagates chan (priv_setBrightness chan val) s"
  unfolding priv_setBrightness_binds
proof (intro propagates_bind propagates_gets)
  fix target s1 b s2
  assume "gets (\<lambda>s. clamp val (min_val (brightness s)) (max_val (brightness s))) s = (Inr target, s1)"
    and "gets brightness s1 = (Inr b, s2)"
  then have "\<not> unconfigured b" using assms by (auto dest!: gets_result)
  then show "propagates chan (brightness_command chan target b) s2"
    by (rule propagates_brightness_command)
qed (auto intro!: propagates_modify propagates_if)

lemma axis_moved_refl [simp]: "axis_moved a a"
  by (simp add: axis_moved_def)

lemma axis_moved_eq: "a' = a \<Longrightarrow> axis_moved a a'"
  by simp





lemma trace_only_frame:
  assumes "trace_only m" and "m s = (r, s')"
  shows "volume s' = volume s" "brightness s' = brightness s"
    "activeIdentifier s' = activeIdentifier s" "active s' = active s"
proof -
  from trace_onlyD [OF assms] have e: "s' = s\<lparr>trace := trace s'\<rparr>" .
  show "volume s' = volume s" by (subst e) simp
  show "brightness s' = brightness s" by (subst e) simp
  show "activeIdentifier s' = activeIdentifier s" by (subst e) simp
  show "active s' = active s" by (subst e) simp
qed

lemma moved_handleGetActive: "axes_moved s (snd (handleGetActive chan s))"
  by (simp add: handleGetActive_eq Let_def axes_moved_def split: sum.split)






lemma volume_after_handleSetVolume:
  "(case handleSetVolume chan val s of
      (r, s') \<Rightarrow>
        brightness s' = brightness s \<and> activeIdentifier s' = activeIdentifier s
        \<and> active s' = active (snd (priv_ensureOn chan s))
        \<and> volume s' = (case r of Inl e \<Rightarrow> volume s
                         | Inr _ \<Rightarrow> (volume s)\<lparr>current := clamp val (min_val (volume s)) (max_val (volume s))\<rparr>))"
proof -
  let ?t = "clamp val (min_val (volume s)) (max_val (volume s))"
  obtain r1 s1 where e: "priv_ensureOn chan s = (r1, s1)"
    by (cases "priv_ensureOn chan s")
  then have s1: "s1 = s\<lparr>active := active s1, trace := trace s1\<rparr>"
    by (auto simp: priv_ensureOn_frame)
  have f1: "volume s1 = volume s" "brightness s1 = brightness s"
    "activeIdentifier s1 = activeIdentifier s"
    by (subst s1, simp)+
  obtain r2 s2 where c: "volume_command chan ?t (volume s1) s1 = (r2, s2)"
    by (cases "volume_command chan ?t (volume s1) s1")
  note f2 = trace_only_frame [OF trace_only_volume_command c]
  show ?thesis
    using e f1 c f2
    by (cases r1; cases r2) (simp_all add: handleSetVolume_eq Let_def)
qed

lemma volume_after_handleSetMute:
  "(case handleSetMute chan val s of
      (r, s') \<Rightarrow>
        brightness s' = brightness s \<and> activeIdentifier s' = activeIdentifier s
        \<and> active s' = active (snd (priv_ensureOn chan s))
        \<and> volume s' = (case r of Inl e \<Rightarrow> volume s
                         | Inr _ \<Rightarrow> (volume s)\<lparr>muted := truthy val\<rparr>))"
proof -
  obtain r1 s1 where e: "priv_ensureOn chan s = (r1, s1)"
    by (cases "priv_ensureOn chan s")
  then have s1: "s1 = s\<lparr>active := active s1, trace := trace s1\<rparr>"
    by (auto simp: priv_ensureOn_frame)
  have f1: "volume s1 = volume s" "brightness s1 = brightness s"
    "activeIdentifier s1 = activeIdentifier s"
    by (subst s1, simp)+
  obtain r2 s2 where c: "mute_command chan (truthy val) (volume s1) s1 = (r2, s2)"
    by (cases "mute_command chan (truthy val) (volume s1) s1")
  note f2 = trace_only_frame [OF trace_only_mute_command c]
  show ?thesis
    using e f1 c f2
    by (cases r1; cases r2) (simp_all add: handleSetMute_eq Let_def)
qed

lemma brightness_after_priv_setBrightness:
  "(case priv_setBrightness chan val s of
      (r, s') \<Rightarrow>
        volume s' = volume s \<and> activeIdentifier s' = activeIdentifier s \<and> active s' = active s
        \<and> brightness s' = (case r of Inl e \<Rightarrow> brightness s
                         | Inr _ \<Rightarrow> (brightness s)\<lparr>current := clamp val (min_val (brightness s)) (max_val (brightness s))\<rparr>))"
proof -
  let ?t = "clamp val (min_val (brightness s)) (max_val (brightness s))"
  obtain r2 s2 where c: "brightness_command chan ?t (brightness s) s = (r2, s2)"
    by (cases "brightness_command chan ?t (brightness s) s")
  note f2 = trace_only_frame [OF trace_only_brightness_command c]
  show ?thesis
    using c f2
    by (cases r2) (simp_all add: priv_setBrightness_eq Let_def)
qed





lemma demo_tv_fields [simp]:
  "monitorId demo_tv = 1" "includeGroup demo_tv = True" "groupId demo_tv = 0"
  "exposeBrightness demo_tv = True" "inputs demo_tv = default_inputs"
  "exposeInputSwitches demo_tv = False" "active demo_tv = 0" "activeIdentifier demo_tv = Num 1"
  "trace demo_tv = []"
  "volume demo_tv = \<lparr>min_val = 0, max_val = 100, setCode = Undefined, upCode = Undefined,
      downCode = Undefined, current = 15, stepMs = 120, muteSetCode = Undefined,
      muteToggleCode = Undefined, muted = False\<rparr>"
  "brightness demo_tv = \<lparr>min_val = 0, max_val = 100, setCode = Undefined, upCode = Undefined,
      downCode = Undefined, current = 50, stepMs = 120\<rparr>"
  by (simp_all add: demo_tv_def demo_conf_def constructor_def opt_field_def opt_code_def clamp_def
        default_inputs_def)

lemma stepper_tv_fields [simp]:
  "monitorId stepper_tv = 1" "includeGroup stepper_tv = True" "groupId stepper_tv = 0"
  "exposeBrightness stepper_tv = True" "inputs stepper_tv = default_inputs"
  "exposeInputSwitches stepper_tv = False" "active stepper_tv = 0"
  "activeIdentifier stepper_tv = Num 1" "trace stepper_tv = []"
  "volume stepper_tv = \<lparr>min_val = 0, max_val = 100, setCode = Undefined, upCode = Str ''0x41'',
      downCode = Str ''0x42'', current = 15, stepMs = 120, muteSetCode = Undefined,
      muteToggleCode = Undefined, muted = False\<rparr>"
  "brightness stepper_tv = \<lparr>min_val = 0, max_val = 100, setCode = Undefined, upCode = Str ''0x11'',
      downCode = Str ''0x12'', current = 50, stepMs = 120\<rparr>"
  by (simp_all add: stepper_tv_def stepper_axis_def demo_conf_def constructor_def opt_field_def
        opt_code_def clamp_def default_inputs_def)

lemma parse_hex_codes [simp]:
  "priv_parseCode (Str ''0x11'') = 0x11" "priv_parseCode (Str ''0x12'') = 0x12"
  "priv_parseCode (Str ''0x41'') = 0x41" "priv_parseCode (Str ''0x42'') = 0x42"
  by (simp_all add: priv_parseCode_def toLowerCase_def trim_def is_space_def lower_char_def
        startsWith_def parseInt_def digit_value_def and_0xFF_def to_number_def nearest_double_def)

lemma parse_rounded_codes:
  "priv_parseCode (Str ''9007199254740993'') = 0"
  "priv_parseCode (Str (CHR 0xA0 # ''0x44'')) = 0x44"
  "priv_parseCode (Num 9007199254740993) = 0"
  "js_toString (Num 1000000000000000000000) = ''1e+21''"
  "js_toString (Num 9223372036854775808) = ''9223372036854776000''"
  by code_simp+

lemma demo_packets [simp]:
  "buildSicpPacket 1 [0x18, 0x02] True 0 = [0x06, 0x01, 0x00, 0x18, 0x02, 0x1D]"
  "buildSicpPacket 1 [0x12] True 0 = [0x05, 0x01, 0x00, 0x12, 0x16]"
  "buildSicpPacket 1 [0x41] True 0 = [0x05, 0x01, 0x00, 0x41, 0x45]"
  by (simp_all add: buildSicpPacket_def packet_body_def checksum_loop_def Buffer_from_def)

subsection \<open>Invariants, failures and commits\<close>

lemma wire_steps: "wire (steps pkt ms n) = replicate n pkt"
  by (induction n) (simp_all add: steps_def)







lemma state_after_handleSetActiveIdentifier:
  "(case handleSetActiveIdentifier chan i s of
      (r, s') \<Rightarrow>
        volume s' = volume s \<and> brightness s' = brightness s
        \<and> active s' = active (snd (priv_ensureOn chan s))
        \<and> activeIdentifier s' = (case r of Inl e \<Rightarrow> activeIdentifier s | Inr _ \<Rightarrow> activeIdentifier s'))"
proof -
  obtain r1 s1 where e: "priv_ensureOn chan s = (r1, s1)"
    by (cases "priv_ensureOn chan s")
  then have s1: "s1 = s\<lparr>active := active s1, trace := trace s1\<rparr>"
    by (auto simp: priv_ensureOn_frame)
  have f1: "volume s1 = volume s" "brightness s1 = brightness s"
    "activeIdentifier s1 = activeIdentifier s"
    by (subst s1, simp)+
  show ?thesis
    using e f1
    by (cases r1)
       (simp_all add: handleSetActiveIdentifier_def bind_eq [of "priv_ensureOn chan"]
          priv_setInputByIdentifier_eq Let_def split: option.split sum.split)
qed

lemma failed_perform:
  assumes "mutating op" and "fst (perform chan op s) = Inl e"
  shows "activeIdentifier (snd (perform chan op s)) = activeIdentifier s
       \<and> volume (snd (perform chan op s)) = volume s
       \<and> brightness (snd (perform chan op s)) = brightness s
       \<and> active (snd (perform chan op s))
           = (if ensures_on op then active (snd (priv_ensureOn chan s)) else active s)"
proof (cases op)
  case (SetPower v)
  with assms(2) show ?thesis
    by (simp add: perform_def handleSetActive_eq Let_def split: sum.splits if_splits)
next
  case (SetInput i)
  with assms(2) state_after_handleSetActiveIdentifier [where chan=chan and i=i and s=s]
  show ?thesis by (simp add: perform_def case_prod_beta)
next
  case (SetVolume x)
  with assms(2) volume_after_handleSetVolume [where chan=chan and val=x and s=s]
  show ?thesis by (simp add: perform_def case_prod_beta)
next
  case (SetMute m)
  with assms(2) volume_after_handleSetMute [where chan=chan and val=m and s=s]
  show ?thesis by (simp add: perform_def case_prod_beta)
next
  case (SetBrightness x)
  with assms(2) brightness_after_priv_setBrightness [where chan=chan and val=x and s=s]
  show ?thesis by (simp add: perform_def case_prod_beta)
qed (use assms(1) in simp_all)

lemma propagates_perform:
  assumes "mutating op" and "\<not> swallows op s"
  shows "propagates chan (perform chan op) s"
proof (cases op)
  case (SetBrightness x)
  with assms(2) show ?thesis
    by (simp add: perform_def swallows_def propagates_priv_setBrightness)
qed (use assms(1) in \<open>simp_all add: perform_def propagates_handleSetActive
      propagates_handleSetActiveIdentifier propagates_handleSetVolume propagates_handleSetMute\<close>)

lemma active_after_ensureOn:
  "active (snd (priv_ensureOn chan s)) = (if fst (priv_ensureOn chan s) = Inr () then 1 else active s)"
  by (simp add: priv_ensureOn_frame)

lemma unconfigured_brightness_commits:
  assumes "unconfigured (brightness s)"
  shows "fst (priv_setBrightness chan val s) = Inr ()
       \<and> brightness (snd (priv_setBrightness chan val s))
           = (brightness s)\<lparr>current := clamped (brightness s) val\<rparr>"
proof -
  have "fst (brightness_command chan (clamped (brightness s) val) (brightness s) s) = Inr ()"
    using assms
    by (auto simp: brightness_command_def unconfigured_def try_catch_def
          bind_eq [of "priv_send _ _"] priv_send_eq emit_def return_def split: sum.split)
  then have "fst (priv_setBrightness chan val s) = Inr ()"
    by (simp add: priv_setBrightness_eq Let_def clamped_def case_prod_beta split: sum.splits)
  with brightness_after_priv_setBrightness [where chan=chan and val=val and s=s]
  show ?thesis by (simp add: case_prod_beta clamped_def)
qed

subsection \<open>The promise chain is a first-in, first-out worker\<close>























lemma phase_wdrain: "phase (wdrain w) = Idle \<or> phase (wdrain w) = InFlight"
  by (cases "phase w") (auto simp: wdrain_def)

lemma wdrain_idem: "wdrain (wdrain w) = wdrain w"
  using phase_wdrain [of w] by (auto simp: wdrain_def [of "wdrain w"])

lemma bufs_wdrain [simp]: "bufs (wdrain w) = bufs w"
  by (cases "phase w") (simp_all add: wdrain_def)















section \<open>Packet framing\<close>

text \<open>
  C1, as the code has it. For every monitor id, group setting and payload, the packet is
  the size byte, the target id, the group id when group addressing is on, the payload
  bytes and the checksum, the checksum is the XOR of all bytes before it, and the XOR of
  the whole packet is 0. The size byte is \<open>1 + body length + 1\<close> reduced modulo 256
  (\<open>msgSize & 0xFF\<close>): it is that sum itself exactly when the sum is below 256.
\<close>

theorem C1_packet_layout:
  "buildSicpPacket mon payload grp gid =
     (let body = word_of_int mon # (if grp then [word_of_int gid] else []) @ Buffer_from payload;
          size = word_of_int (1 + int (length body) + 1)
      in size # body @ [xor_sum (size # body)])
   \<and> unat (hd (buildSicpPacket mon payload grp gid))
       = (1 + length (packet_body mon payload grp gid) + 1) mod 256
   \<and> xor_sum (buildSicpPacket mon payload grp gid) = 0"
proof -
  let ?body = "packet_body mon payload grp gid"
  let ?front = "Buffer_from ((1 + int (length ?body) + 1) # ?body)"
  have pk: "buildSicpPacket mon payload grp gid = ?front @ [xor_sum ?front]"
    using buildSicpPacket_checksum [of mon payload grp gid]
    by (simp add: Let_def)
  have len: "length (Buffer_from ?body) = length ?body"
    by (simp add: Buffer_from_def)
  have front: "?front = word_of_int (1 + int (length ?body) + 1) # Buffer_from ?body"
    by (simp add: Buffer_from_def)
  have a: "buildSicpPacket mon payload grp gid =
     (let body = word_of_int mon # (if grp then [word_of_int gid] else []) @ Buffer_from payload;
          size = word_of_int (1 + int (length body) + 1)
      in size # body @ [xor_sum (size # body)])"
    unfolding pk front Let_def Buffer_from_body [symmetric] len by simp
  have "hd (buildSicpPacket mon payload grp gid)
          = (word_of_int (int (1 + length ?body + 1)) :: 8 word)"
    unfolding pk front by simp
  also have "\<dots> = of_nat (1 + length ?body + 1)"
    by (simp only: of_int_of_nat_eq)
  finally have h: "hd (buildSicpPacket mon payload grp gid)
                     = (of_nat (1 + length ?body + 1) :: 8 word)" .
  have b: "unat (hd (buildSicpPacket mon payload grp gid)) = (1 + length ?body + 1) mod 256"
    unfolding h unat_of_nat by simp
  have c: "xor_sum (buildSicpPacket mon payload grp gid) = 0"
    unfolding pk by (rule xor_sum_snoc)
  from a b c show ?thesis by blast
qed

text \<open>
  C1 as the specification states it fails on a long payload: with group addressing and
  252 payload bytes the body has 254 bytes, \<open>1 + 254 + 1 = 256\<close>, and the size byte
  is 0.
\<close>

theorem C1_size_byte_wraps:
  "unat (hd (buildSicpPacket 1 (replicate 252 0) True 0))
     \<noteq> 1 + length (packet_body 1 (replicate 252 0) True 0) + 1"
  by (simp add: buildSicpPacket_def packet_body_def checksum_loop_def Buffer_from_def)

text \<open>
  C7, as the code has it. For a device with target id 1, group addressing on and group
  id 0, switching the power on hands exactly one packet to the transmitter, the payload
  \<open>[0x18, 0x02]\<close> framed as \<open>[0x06, 0x01, 0x00, 0x18, 0x02, 0x1D]\<close>: the size byte
  counts itself, the four body bytes and the checksum, and
  \<open>0x1D = 0x06 XOR 0x01 XOR 0x00 XOR 0x18 XOR 0x02\<close>.
\<close>

theorem C7_power_on_packet:
  "buildSicpPacket 1 [0x18, 0x02] True 0 = [0x06, 0x01, 0x00, 0x18, 0x02, 0x1D]
   \<and> (0x1D :: 8 word) = 0x06 XOR 0x01 XOR 0x00 XOR 0x18 XOR 0x02
   \<and> wire (trace (snd (handleSetActive chan (Num 1)
                          (s\<lparr>monitorId := 1, includeGroup := True, groupId := 0\<rparr>))))
       = wire (trace s) @ [[0x06, 0x01, 0x00, 0x18, 0x02, 0x1D]]"
proof -
  have p: "buildSicpPacket 1 [0x18, 0x02] True 0 = [0x06, 0x01, 0x00, 0x18, 0x02, 0x1D]"
    by (simp add: buildSicpPacket_def packet_body_def checksum_loop_def Buffer_from_def)
  have w: "wire (trace (snd (handleSetActive chan (Num 1)
                               (s\<lparr>monitorId := 1, includeGroup := True, groupId := 0\<rparr>))))
       = wire (trace s) @ [buildSicpPacket 1 [0x18, 0x02] True 0]"
    by (simp add: handleSetActive_eq Let_def power_packet_def split: sum.split)
  from p w show ?thesis by simp
qed

text \<open>
  C7 as the specification states it fails: the size byte of that packet is \<open>0x06\<close>,
  not \<open>0x04\<close>, and so the checksum differs too.
\<close>

theorem C7_size_byte_is_not_4:
  "buildSicpPacket 1 [0x18, 0x02] True 0
     \<noteq> [0x04, 0x01, 0x00, 0x18, 0x02, 0x04 XOR 0x01 XOR 0x00 XOR 0x18 XOR 0x02]"
  by (simp add: buildSicpPacket_def packet_body_def checksum_loop_def Buffer_from_def)

section \<open>Reply classification\<close>

text \<open>
  C8. The three flags of \<open>parseReply\<close> are exactly the presence of the sentinel bytes
  \<open>0x06\<close>, \<open>0x15\<close> and \<open>0x18\<close> anywhere in the reply; so a reply is ACK-positive
  (ACK seen, neither NACK nor not-available seen) exactly when it contains \<open>0x06\<close>
  and neither \<open>0x15\<close> nor \<open>0x18\<close>, whatever the order of its bytes.
\<close>

theorem C8_classify:
  "ok (parseReply buf) = (0x06 \<in> set buf)
   \<and> nack (parseReply buf) = (0x15 \<in> set buf)
   \<and> nav (parseReply buf) = (0x18 \<in> set buf)
   \<and> ack_positive (parseReply buf)
       = (0x06 \<in> set buf \<and> 0x15 \<notin> set buf \<and> 0x18 \<notin> set buf)"
  by (simp add: parseReply_def ack_positive_def)

section \<open>Power query\<close>

text \<open>
  C5, as the code has it. \<open>handleGetActive\<close> never raises: it returns the power value
  it leaves in \<open>active\<close>. It transmits the power query once. When the transmission
  fails, \<open>active\<close> becomes 0 (off). When a reply arrives, \<open>active\<close> becomes 1 if the
  reply contains the byte \<open>0x02\<close>, else 0 if it contains \<open>0x01\<close>, and otherwise
  keeps the value it had.
\<close>

theorem C5_GetPower:
  "(case handleGetActive chan s of
      (r, s') \<Rightarrow>
        r = Inr (active s')
        \<and> active s' =
            (case chan (tx_count (trace s)) of
               Inl e \<Rightarrow> 0
             | Inr reply \<Rightarrow> if 0x02 \<in> set reply then 1
                            else if 0x01 \<in> set reply then 0 else active s)
        \<and> wire (trace s') = wire (trace s) @ [query_packet s])"
  by (simp add: handleGetActive_eq Let_def split: sum.split)

text \<open>
  C5 as the specification states it fails on a reply without a status marker: with the
  power on and the reply \<open>[0x06]\<close>, the power stays on, it does not default to off.
\<close>

theorem C5_indeterminate_keeps_power:
  "fst (handleGetActive (\<lambda>k. Inr [0x06]) (demo_tv\<lparr>active := 1\<rparr>)) = Inr 1
   \<and> active (snd (handleGetActive (\<lambda>k. Inr [0x06]) (demo_tv\<lparr>active := 1\<rparr>))) = 1"
  by (simp add: handleGetActive_eq Let_def)

section \<open>The serialized dispatcher\<close>



section \<open>Input selection\<close>

text \<open>
  C6, as the code has it. When no configured input has the identifier,
  \<open>_setInputByIdentifier\<close> logs an error and returns normally: it raises nothing, hands
  no packet to the transmitter and changes no field. \<open>handleSetActiveIdentifier\<close> runs
  \<open>_ensureOn\<close> first, so its outcome is the outcome of \<open>_ensureOn\<close>: with the power
  on it succeeds and transmits nothing; with the power off it transmits the power-on
  packet and nothing else, and fails only as that power command fails. The active input
  identifier is unchanged in every case.
\<close>

theorem C6_unknown_input:
  assumes "find (\<lambda>x. ident x = Num i) (inputs s) = None"
  shows "priv_setInputByIdentifier chan i s
           = (Inr (), s\<lparr>trace := trace s @ [Log Err ''Unknown input identifier:'']\<rparr>)
    \<and> (case handleSetActiveIdentifier chan i s of
          (r, s') \<Rightarrow>
            r = fst (priv_ensureOn chan s)
          \<and> wire (trace s') = wire (trace s) @ (if active s = 1 then [] else [power_packet s True])
          \<and> activeIdentifier s' = activeIdentifier s)
    \<and> (if active s = 1 then fst (handleSetActiveIdentifier chan i s) = Inr ()
        else fst (handleSetActiveIdentifier chan i s) = fst (handleSetActive chan (Num 1) s))"
proof -
  have a: "(case handleSetActiveIdentifier chan i s of
          (r, s') \<Rightarrow>
            r = fst (priv_ensureOn chan s)
          \<and> wire (trace s') = wire (trace s) @ (if active s = 1 then [] else [power_packet s True])
          \<and> activeIdentifier s' = activeIdentifier s)"
    using assms
    by (cases "ensureOn_result chan s")
       (simp_all add: handleSetActiveIdentifier_def bind_def priv_ensureOn_frame
          wire_ensureOn_events setInput_unknown)
  have b: "fst (priv_ensureOn chan s) =
            (if active s = 1 then Inr () else fst (handleSetActive chan (Num 1) s))"
    by (simp add: priv_ensureOn_eq handleSetActive_eq Let_def split: sum.split)
  from a b setInput_unknown [OF assms] show ?thesis
    by (simp add: case_prod_beta)
qed

theorem C6_unknown_input_witness:
  "find (\<lambda>x. ident x = Num 99) (inputs (demo_tv\<lparr>active := 1\<rparr>)) = None
   \<and> fst (handleSetActiveIdentifier ack_channel 99 (demo_tv\<lparr>active := 1\<rparr>)) = Inr ()
   \<and> wire (trace (snd (handleSetActiveIdentifier ack_channel 99 (demo_tv\<lparr>active := 1\<rparr>)))) = []
   \<and> activeIdentifier (snd (handleSetActiveIdentifier ack_channel 99 (demo_tv\<lparr>active := 1\<rparr>))) = Num 1"
proof -
  have h: "find (\<lambda>x. ident x = Num 99) (inputs (demo_tv\<lparr>active := 1\<rparr>)) = None"
    by (simp add: default_inputs_def)
  from C6_unknown_input [OF h, of ack_channel] h show ?thesis
    by (simp add: case_prod_beta priv_ensureOn_eq)
qed

text \<open>
  C6 as the specification states it fails twice on the default inputs (identifiers 1 to
  4) and identifier 99: with the power on the operation returns normally instead of
  failing, and with the power off it transmits one packet, the power-on command.
\<close>

theorem C6_returns_normally:
  "fst (handleSetActiveIdentifier ack_channel 99 (demo_tv\<lparr>active := 1\<rparr>)) = Inr ()
   \<and> wire (trace (snd (handleSetActiveIdentifier ack_channel 99 demo_tv)))
       = [[0x06, 0x01, 0x00, 0x18, 0x02, 0x1D]]"
  by (simp add: handleSetActiveIdentifier_def bind_eq [of "priv_ensureOn _"] priv_ensureOn_eq
        setInput_unknown default_inputs_def ack_channel_def Let_def rejected_def parseReply_def
        power_packet_def)

section \<open>Relative stepping\<close>

text \<open>
  C4, as the code has it. For a brightness axis in relative mode (no set code, an up
  and a down code) \<open>_setBrightness\<close> clamps the request, \<open>target\<close> being the larger
  of \<open>min\<close> and the smaller of \<open>max\<close> and the request, and steps
  \<open>n = |target - current|\<close> times: a single-step packet, then the configured delay.
  The packet carries the up code when the target is above \<open>current\<close> and the down
  code otherwise; with \<open>n = 0\<close> nothing is sent. When the display answers all \<open>n\<close>
  transmissions the handler commits \<open>current = target\<close> and pushes the characteristic
  updates. When a transmission fails the stepping ends with it: the rounds before it
  and the failed packet are all that is sent, the error goes to the caller and
  \<open>current\<close> is not committed. \<open>handleSetVolume\<close> does the same for a volume axis in
  relative mode once \<open>_ensureOn\<close> has returned normally, which with the power on it
  does at once; when \<open>_ensureOn\<close> fails the handler fails with it before any step.
  The last four conjuncts say what \<open>steps\<close> and \<open>first_failure\<close> are: \<open>m\<close> rounds of
  packet and delay, putting \<open>m\<close> copies of the packet on the wire, and the first of
  \<open>m\<close> transmissions that the channel fails.
\<close>

theorem C4_relative_stepping:
  "(relative_mode (brightness s) \<longrightarrow>
      priv_setBrightness chan val s =
        (let b = brightness s;
             target = max (min_val b) (min (max_val b) val);
             n = nat \<bar>target - current b\<bar>;
             pkt = send_packet s [if target > current b then priv_parseCode (upCode b)
                                  else priv_parseCode (downCode b)]
         in case first_failure chan (tx_count (trace s)) n of
              None \<Rightarrow>
                (Inr (),
                 s\<lparr>brightness := b\<lparr>current := target\<rparr>,
                   trace := trace s @ steps pkt (stepMs b) n
                            @ brightness_updates (s\<lparr>brightness := b\<lparr>current := target\<rparr>\<rparr>)\<rparr>)
            | Some (j, e) \<Rightarrow>
                (Inl e, s\<lparr>trace := trace s @ steps pkt (stepMs b) j @ [Tx pkt]\<rparr>)))
   \<and> (relative_mode (volume s) \<longrightarrow>
      handleSetVolume chan val s =
        (case priv_ensureOn chan s of
           (Inl e, s1) \<Rightarrow> (Inl e, s1)
         | (Inr u, s1) \<Rightarrow>
             (let v = volume s;
                  target = max (min_val v) (min (max_val v) val);
                  n = nat \<bar>target - current v\<bar>;
                  pkt = send_packet s [if target > current v then priv_parseCode (upCode v)
                                       else priv_parseCode (downCode v)]
              in case first_failure chan (tx_count (trace s1)) n of
                   None \<Rightarrow>
                     (Inr (),
                      s1\<lparr>volume := v\<lparr>current := target\<rparr>,
                         trace := trace s1 @ steps pkt (stepMs v) n
                                  @ [Update TelevisionSpeaker Volume (Num target)]\<rparr>)
                 | Some (j, e) \<Rightarrow>
                     (Inl e, s1\<lparr>trace := trace s1 @ steps pkt (stepMs v) j @ [Tx pkt]\<rparr>))))
   \<and> (active s = 1 \<longrightarrow> priv_ensureOn chan s = (Inr (), s))
   \<and> steps p ms m = concat (replicate m [Tx p, Delay ms])
   \<and> wire (steps p ms m) = replicate m p
   \<and> (first_failure chan k m = None \<longleftrightarrow> (\<forall>i<m. \<exists>reply. chan (k + i) = Inr reply))
   \<and> (first_failure chan k m = Some (f, err) \<longleftrightarrow>
        f < m \<and> chan (k + f) = Inl err \<and> (\<forall>i<f. \<exists>reply. chan (k + i) = Inr reply))"
proof -
  have b: "relative_mode (brightness s) \<longrightarrow>
      priv_setBrightness chan val s =
        (let b = brightness s;
             target = max (min_val b) (min (max_val b) val);
             n = nat \<bar>target - current b\<bar>;
             pkt = send_packet s [if target > current b then priv_parseCode (upCode b)
                                  else priv_parseCode (downCode b)]
         in case first_failure chan (tx_count (trace s)) n of
              None \<Rightarrow>
                (Inr (),
                 s\<lparr>brightness := b\<lparr>current := target\<rparr>,
                   trace := trace s @ steps pkt (stepMs b) n
                            @ brightness_updates (s\<lparr>brightness := b\<lparr>current := target\<rparr>\<rparr>)\<rparr>)
            | Some (j, e) \<Rightarrow>
                (Inl e, s\<lparr>trace := trace s @ steps pkt (stepMs b) j @ [Tx pkt]\<rparr>))"
    using brightness_stepping [of s chan val] unfolding clamp_def by simp
  have v: "relative_mode (volume s) \<longrightarrow>
      handleSetVolume chan val s =
        (case priv_ensureOn chan s of
           (Inl e, s1) \<Rightarrow> (Inl e, s1)
         | (Inr u, s1) \<Rightarrow>
             (let v = volume s;
                  target = max (min_val v) (min (max_val v) val);
                  n = nat \<bar>target - current v\<bar>;
                  pkt = send_packet s [if target > current v then priv_parseCode (upCode v)
                                       else priv_parseCode (downCode v)]
              in case first_failure chan (tx_count (trace s1)) n of
                   None \<Rightarrow>
                     (Inr (),
                      s1\<lparr>volume := v\<lparr>current := target\<rparr>,
                         trace := trace s1 @ steps pkt (stepMs v) n
                                  @ [Update TelevisionSpeaker Volume (Num target)]\<rparr>)
                 | Some (j, e) \<Rightarrow>
                     (Inl e, s1\<lparr>trace := trace s1 @ steps pkt (stepMs v) j @ [Tx pkt]\<rparr>)))"
    using volume_stepping [of s chan val] unfolding clamp_def by simp
  have on: "active s = 1 \<longrightarrow> priv_ensureOn chan s = (Inr (), s)"
    by (simp add: priv_ensureOn_eq)
  have st: "steps p ms m = concat (replicate m [Tx p, Delay ms])"
    by (simp add: steps_def)
  note w = wire_steps [of p ms m]
  note n = first_failure_None [of chan k m]
  note f = first_failure_Some [of chan k m f err]
  from b v on st w n f show ?thesis by blast
qed

theorem C4_relative_stepping_witness:
  "relative_mode (brightness (stepper_tv\<lparr>brightness := (brightness stepper_tv)\<lparr>current := 98\<rparr>\<rparr>))
   \<and> priv_setBrightness ack_channel 130
        (stepper_tv\<lparr>brightness := (brightness stepper_tv)\<lparr>current := 98\<rparr>\<rparr>) =
       (Inr (),
        stepper_tv\<lparr>brightness := (brightness stepper_tv)\<lparr>current := 100\<rparr>,
          trace := [Tx [0x05, 0x01, 0x00, 0x11, 0x15], Delay 120,
                    Tx [0x05, 0x01, 0x00, 0x11, 0x15], Delay 120,
                    Update Backlight Brightness (Num 100), Update Backlight On (Bool True)]\<rparr>)
   \<and> relative_mode (volume (stepper_tv\<lparr>active := 1, volume := (volume stepper_tv)\<lparr>current := 3\<rparr>\<rparr>))
   \<and> handleSetVolume (drop_after 2) (- 5)
        (stepper_tv\<lparr>active := 1, volume := (volume stepper_tv)\<lparr>current := 3\<rparr>\<rparr>) =
       (Inl ConnectionError,
        stepper_tv\<lparr>active := 1, volume := (volume stepper_tv)\<lparr>current := 3\<rparr>,
          trace := [Tx [0x05, 0x01, 0x00, 0x42, 0x46], Delay 120,
                    Tx [0x05, 0x01, 0x00, 0x42, 0x46], Delay 120,
                    Tx [0x05, 0x01, 0x00, 0x42, 0x46]]\<rparr>)
   \<and> handleSetVolume ack_channel (- 5)
        (stepper_tv\<lparr>active := 1, volume := (volume stepper_tv)\<lparr>current := 1\<rparr>\<rparr>) =
       (Inr (),
        stepper_tv\<lparr>active := 1, volume := (volume stepper_tv)\<lparr>current := 0\<rparr>,
          trace := [Tx [0x05, 0x01, 0x00, 0x42, 0x46], Delay 120,
                    Update TelevisionSpeaker Volume (Num 0)]\<rparr>)
   \<and> priv_setBrightness timeout_channel 50 stepper_tv =
       (Inr (),
        stepper_tv\<lparr>trace := [Update Backlight Brightness (Num 50),
                              Update Backlight On (Bool True)]\<rparr>)"
proof -
  let ?sb = "stepper_tv\<lparr>brightness := (brightness stepper_tv)\<lparr>current := 98\<rparr>\<rparr>"
  let ?sv = "stepper_tv\<lparr>active := 1, volume := (volume stepper_tv)\<lparr>current := 3\<rparr>\<rparr>"
  let ?sw = "stepper_tv\<lparr>active := 1, volume := (volume stepper_tv)\<lparr>current := 1\<rparr>\<rparr>"
  have h1: "relative_mode (brightness ?sb)" and h2: "relative_mode (volume ?sv)"
    and h3: "relative_mode (volume ?sw)" and h4: "relative_mode (brightness stepper_tv)"
    by (simp_all add: relative_mode_def)
  have p: "buildSicpPacket 1 [0x11] True 0 = [0x05, 0x01, 0x00, 0x11, 0x15]"
    "buildSicpPacket 1 [0x42] True 0 = [0x05, 0x01, 0x00, 0x42, 0x46]"
    by (simp_all add: buildSicpPacket_def packet_body_def checksum_loop_def Buffer_from_def)
  from C4_relative_stepping [where s="?sb" and chan=ack_channel and val=130 and p="[]" and ms=0 and m=0 and k=0 and f=0 and err=TimeoutError] h1
  have b: "priv_setBrightness ack_channel 130 ?sb =
       (Inr (),
        stepper_tv\<lparr>brightness := (brightness stepper_tv)\<lparr>current := 100\<rparr>,
          trace := [Tx [0x05, 0x01, 0x00, 0x11, 0x15], Delay 120,
                    Tx [0x05, 0x01, 0x00, 0x11, 0x15], Delay 120,
                    Update Backlight Brightness (Num 100), Update Backlight On (Bool True)]\<rparr>)"
    by (simp add: p steps_def send_packet_def brightness_updates_def ack_channel_def
          numeral_2_eq_2 Let_def)
  from C4_relative_stepping [where s="?sv" and chan="drop_after 2" and val="- 5" and p="[]" and ms=0 and m=0 and k=0 and f=0 and err=TimeoutError] h2
  have v: "handleSetVolume (drop_after 2) (- 5) ?sv =
       (Inl ConnectionError,
        stepper_tv\<lparr>active := 1, volume := (volume stepper_tv)\<lparr>current := 3\<rparr>,
          trace := [Tx [0x05, 0x01, 0x00, 0x42, 0x46], Delay 120,
                    Tx [0x05, 0x01, 0x00, 0x42, 0x46], Delay 120,
                    Tx [0x05, 0x01, 0x00, 0x42, 0x46]]\<rparr>)"
    by (simp add: p steps_def send_packet_def drop_after_def numeral_3_eq_3 numeral_2_eq_2 Let_def)
  from C4_relative_stepping [where s="?sw" and chan=ack_channel and val="- 5" and p="[]" and ms=0 and m=0 and k=0 and f=0 and err=TimeoutError] h3
  have w: "handleSetVolume ack_channel (- 5) ?sw =
       (Inr (),
        stepper_tv\<lparr>active := 1, volume := (volume stepper_tv)\<lparr>current := 0\<rparr>,
          trace := [Tx [0x05, 0x01, 0x00, 0x42, 0x46], Delay 120,
                    Update TelevisionSpeaker Volume (Num 0)]\<rparr>)"
    by (simp add: p steps_def send_packet_def ack_channel_def Let_def)
  from C4_relative_stepping [where s=stepper_tv and chan=timeout_channel and val=50 and p="[]" and ms=0 and m=0 and k=0 and f=0 and err=TimeoutError] h4
  have z: "priv_setBrightness timeout_channel 50 stepper_tv =
       (Inr (),
        stepper_tv\<lparr>trace := [Update Backlight Brightness (Num 50),
                              Update Backlight On (Bool True)]\<rparr>)"
    by (simp add: steps_def brightness_updates_def Let_def)
  from h1 h2 b v w z show ?thesis by simp
qed

text \<open>
  C4 as the specification states it, for every run, fails when a transmission does:
  with the power on, the volume at 15 and a display that never answers,
  \<open>handleSetVolume(20)\<close> transmits one step packet instead of five, fails with the
  timeout and leaves the volume at 15.
\<close>

theorem C4_failed_step_ends_stepping:
  "relative_mode (volume (stepper_tv\<lparr>active := 1\<rparr>))
   \<and> current (volume (stepper_tv\<lparr>active := 1\<rparr>)) = 15
   \<and> handleSetVolume timeout_channel 20 (stepper_tv\<lparr>active := 1\<rparr>) =
       (Inl TimeoutError, stepper_tv\<lparr>active := 1, trace := [Tx [0x05, 0x01, 0x00, 0x41, 0x45]]\<rparr>)
   \<and> wire (trace (snd (handleSetVolume timeout_channel 20 (stepper_tv\<lparr>active := 1\<rparr>))))
       = [[0x05, 0x01, 0x00, 0x41, 0x45]]
   \<and> current (volume (snd (handleSetVolume timeout_channel 20 (stepper_tv\<lparr>active := 1\<rparr>)))) = 15"
proof -
  let ?s = "stepper_tv\<lparr>active := 1\<rparr>"
  have h: "relative_mode (volume ?s)"
    by (simp add: relative_mode_def)
  have e: "priv_ensureOn timeout_channel ?s = (Inr (), ?s)"
    by (simp add: priv_ensureOn_eq)
  have r: "handleSetVolume timeout_channel 20 ?s =
       (Inl TimeoutError, stepper_tv\<lparr>active := 1, trace := [Tx [0x05, 0x01, 0x00, 0x41, 0x45]]\<rparr>)"
    using volume_stepping [OF h, of timeout_channel 20]
    by (simp add: e clamp_def steps_def send_packet_def timeout_channel_def numeral_eq_Suc Let_def)
  from h r show ?thesis by simp
qed

section \<open>Volume without codes\<close>

text \<open>
  C10, as the code has it. For a volume axis with neither a set code nor an up/down
  pair, \<open>handleSetVolume\<close> transmits no volume command: after \<open>_ensureOn\<close> it logs
  a warning, commits \<open>current\<close> to the clamped target and pushes the new value to the
  Volume characteristic. With the power on that is the whole run and the wire stays
  silent. With the power off \<open>_ensureOn\<close> transmits the power-on packet first, and
  when that command fails the handler fails with it and commits nothing.
\<close>

theorem C10_unconfigured_volume:
  assumes "unconfigured (volume s)"
  shows "handleSetVolume chan val s =
           (case priv_ensureOn chan s of
              (Inl e, s1) \<Rightarrow> (Inl e, s1)
            | (Inr _, s1) \<Rightarrow>
                (Inr (),
                 s1\<lparr>volume := (volume s)\<lparr>current := clamped (volume s) val\<rparr>,
                    trace := trace s1
                      @ [Log Warn ''Volume codes not configured; ignoring setVolume.'',
                         Update TelevisionSpeaker Volume (Num (clamped (volume s) val))]\<rparr>))
    \<and> wire (trace (snd (handleSetVolume chan val s)))
        = wire (trace s) @ (if active s = 1 then [] else [power_packet s True])
    \<and> (if active s = 1
        then handleSetVolume chan val s =
              (Inr (),
               s\<lparr>volume := (volume s)\<lparr>current := clamped (volume s) val\<rparr>,
                 trace := trace s
                   @ [Log Warn ''Volume codes not configured; ignoring setVolume.'',
                      Update TelevisionSpeaker Volume (Num (clamped (volume s) val))]\<rparr>)
        else fst (handleSetVolume chan val s) = fst (handleSetActive chan (Num 1) s))"
proof -
  let ?t = "clamped (volume s) val"
  obtain r1 s1 where e: "priv_ensureOn chan s = (r1, s1)"
    by (cases "priv_ensureOn chan s")
  then have s1: "s1 = s\<lparr>active := active s1, trace := trace s @ ensureOn_events chan s\<rparr>"
    and r1: "r1 = ensureOn_result chan s"
    by (auto simp: priv_ensureOn_frame)
  have v1: "volume s1 = volume s" by (subst s1) simp
  have t1: "trace s1 = trace s @ ensureOn_events chan s" by (subst s1) simp
  have c: "volume_command chan ?t (volume s1) s1 =
             (Inr (), s1\<lparr>trace := trace s1 @ [Log Warn ''Volume codes not configured; ignoring setVolume.'']\<rparr>)"
    using assms v1 by (auto simp add: volume_command_def unconfigured_def emit_def)
  have a: "handleSetVolume chan val s =
           (case priv_ensureOn chan s of
              (Inl e, s1) \<Rightarrow> (Inl e, s1)
            | (Inr _, s1) \<Rightarrow>
                (Inr (),
                 s1\<lparr>volume := (volume s)\<lparr>current := ?t\<rparr>,
                    trace := trace s1
                      @ [Log Warn ''Volume codes not configured; ignoring setVolume.'',
                         Update TelevisionSpeaker Volume (Num ?t)]\<rparr>))"
    using e c v1 by (cases r1) (simp_all add: handleSetVolume_eq Let_def clamped_def)
  have b: "wire (trace (snd (handleSetVolume chan val s)))
        = wire (trace s) @ (if active s = 1 then [] else [power_packet s True])"
    unfolding a using e t1 by (cases r1) (simp_all add: wire_ensureOn_events)
  have d: "(if active s = 1
        then handleSetVolume chan val s =
              (Inr (),
               s\<lparr>volume := (volume s)\<lparr>current := ?t\<rparr>,
                 trace := trace s
                   @ [Log Warn ''Volume codes not configured; ignoring setVolume.'',
                      Update TelevisionSpeaker Volume (Num ?t)]\<rparr>)
        else fst (handleSetVolume chan val s) = fst (handleSetActive chan (Num 1) s))"
    unfolding a
    by (simp add: priv_ensureOn_eq handleSetActive_eq Let_def split: sum.split)
  from a b d show ?thesis by blast
qed

theorem C10_unconfigured_volume_witness:
  "unconfigured (volume (demo_tv\<lparr>active := 1\<rparr>))
   \<and> handleSetVolume ack_channel 130 (demo_tv\<lparr>active := 1\<rparr>) =
       (Inr (),
        demo_tv\<lparr>active := 1, volume := (volume demo_tv)\<lparr>current := 100\<rparr>,
          trace := [Log Warn ''Volume codes not configured; ignoring setVolume.'',
                    Update TelevisionSpeaker Volume (Num 100)]\<rparr>)
   \<and> wire (trace (snd (handleSetVolume ack_channel 130 (demo_tv\<lparr>active := 1\<rparr>)))) = []"
proof -
  have h: "unconfigured (volume (demo_tv\<lparr>active := 1\<rparr>))"
    by (simp add: unconfigured_def)
  from C10_unconfigured_volume [OF h, of ack_channel 130] h show ?thesis
    by (simp add: clamped_def clamp_def priv_ensureOn_eq)
qed

text \<open>
  C10 as the specification states it fails with the power off: the run transmits one
  packet, the power-on command.
\<close>

theorem C10_power_on_is_transmitted:
  "unconfigured (volume demo_tv)
   \<and> wire (trace (snd (handleSetVolume ack_channel 30 demo_tv)))
       = [[0x06, 0x01, 0x00, 0x18, 0x02, 0x1D]]"
  by (simp add: unconfigured_def handleSetVolume_eq priv_ensureOn_eq Let_def ack_channel_def
        rejected_def parseReply_def  power_packet_def volume_command_def emit_def clamp_def)

section \<open>The axis invariant\<close>



section \<open>Failures of the channel\<close>

text \<open>
  C2, as the code has it. For SetPower, SetInput, SetVolume, SetMute, and SetBrightness on
  an axis that has a set code or an up/down pair: a transmission of the operation that
  fails makes the operation fail with that error, and an operation that fails leaves the
  active input, the whole volume axis (with \<open>muted\<close>) and the whole brightness axis as
  they were. The power is as \<open>_ensureOn\<close> left it for the operations that call it
  (on, when the power-on command had succeeded before the failure; unchanged otherwise)
  and unchanged for SetPower and SetBrightness. SetBrightness on an axis without codes
  catches the failure of its default command: it succeeds and commits the clamped target.
\<close>

theorem C2_failure_semantics:
  "(mutating op \<and> \<not> swallows op s \<longrightarrow>
      propagates chan (perform chan op) s
      \<and> (\<forall>e. fst (perform chan op s) = Inl e \<longrightarrow>
             activeIdentifier (snd (perform chan op s)) = activeIdentifier s
           \<and> volume (snd (perform chan op s)) = volume s
           \<and> brightness (snd (perform chan op s)) = brightness s
           \<and> active (snd (perform chan op s))
               = (if ensures_on op then active (snd (priv_ensureOn chan s)) else active s)))
   \<and> active (snd (priv_ensureOn chan s))
       = (if fst (priv_ensureOn chan s) = Inr () then 1 else active s)
   \<and> (unconfigured (brightness s) \<longrightarrow>
        fst (priv_setBrightness chan val s) = Inr ()
      \<and> brightness (snd (priv_setBrightness chan val s))
          = (brightness s)\<lparr>current := clamped (brightness s) val\<rparr>)"
  using failed_perform [of op chan s] propagates_perform [of op s chan]
    active_after_ensureOn [of chan s] unconfigured_brightness_commits [of s chan val]
  by blast

theorem C2_failure_semantics_witness:
  "mutating (SetVolume 20) \<and> \<not> swallows (SetVolume 20) (stepper_tv\<lparr>active := 1\<rparr>)
   \<and> tx_count (trace (stepper_tv\<lparr>active := 1\<rparr>)) = 0
   \<and> tx_count (trace (snd (perform timeout_channel (SetVolume 20) (stepper_tv\<lparr>active := 1\<rparr>)))) = 1
   \<and> timeout_channel 0 = Inl TimeoutError
   \<and> fst (perform timeout_channel (SetVolume 20) (stepper_tv\<lparr>active := 1\<rparr>)) = Inl TimeoutError
   \<and> volume (snd (perform timeout_channel (SetVolume 20) (stepper_tv\<lparr>active := 1\<rparr>)))
       = volume stepper_tv
   \<and> brightness (snd (perform timeout_channel (SetVolume 20) (stepper_tv\<lparr>active := 1\<rparr>)))
       = brightness stepper_tv
   \<and> activeIdentifier (snd (perform timeout_channel (SetVolume 20) (stepper_tv\<lparr>active := 1\<rparr>)))
       = Num 1
   \<and> active (snd (perform timeout_channel (SetVolume 20) (stepper_tv\<lparr>active := 1\<rparr>))) = 1
   \<and> unconfigured (brightness demo_tv)
   \<and> fst (priv_setBrightness timeout_channel 70 demo_tv) = Inr ()
   \<and> brightness (snd (priv_setBrightness timeout_channel 70 demo_tv))
       = (brightness demo_tv)\<lparr>current := 70\<rparr>"
proof -
  let ?s = "stepper_tv\<lparr>active := 1\<rparr>"
  have h1: "mutating (SetVolume 20) \<and> \<not> swallows (SetVolume 20) ?s"
    by (simp add: swallows_def)
  have h2: "unconfigured (brightness demo_tv)"
    by (simp add: unconfigured_def)
  have run: "perform timeout_channel (SetVolume 20) ?s
               = (Inl TimeoutError, ?s\<lparr>trace := [Tx [0x05, 0x01, 0x00, 0x41, 0x45]]\<rparr>)"
    by (simp add: perform_def handleSetVolume_eq priv_ensureOn_eq Let_def clamp_def
          volume_command_def timeout_channel_def bind_eq [of "priv_send _ _"] priv_send_eq
          send_packet_def numeral_eq_Suc)
  from C2_failure_semantics [where op="SetVolume 20" and s="?s" and chan=timeout_channel]
    h1 run
  have a: "volume (snd (perform timeout_channel (SetVolume 20) ?s)) = volume stepper_tv
     \<and> brightness (snd (perform timeout_channel (SetVolume 20) ?s)) = brightness stepper_tv
     \<and> activeIdentifier (snd (perform timeout_channel (SetVolume 20) ?s)) = Num 1
     \<and> active (snd (perform timeout_channel (SetVolume 20) ?s)) = 1"
    by (simp add: priv_ensureOn_eq)
  from C2_failure_semantics [where s=demo_tv and chan=timeout_channel and val=70] h2
  have b: "fst (priv_setBrightness timeout_channel 70 demo_tv) = Inr ()
     \<and> brightness (snd (priv_setBrightness timeout_channel 70 demo_tv))
         = (brightness demo_tv)\<lparr>current := 70\<rparr>"
    by (simp add: clamped_def clamp_def)
  from h1 h2 run a b show ?thesis
    by (simp add: timeout_channel_def)
qed

text \<open>
  C2 as the specification states it fails for a brightness axis without codes: the
  transmission times out, yet the operation returns normally and \<open>current\<close> moves from
  50 to 70.
\<close>

theorem C2_default_brightness_swallows_failure:
  "fst (priv_setBrightness timeout_channel 70 demo_tv) = Inr ()
   \<and> current (brightness demo_tv) = 50
   \<and> current (brightness (snd (priv_setBrightness timeout_channel 70 demo_tv))) = 70
   \<and> wire (trace (snd (priv_setBrightness timeout_channel 70 demo_tv)))
       = [[0x0C, 0x01, 0x00, 0x32, 0x46, 0xFF, 0xFF, 0xFF, 0xFF, 0xFF, 0xFF, 0x79]]"
  by (simp add: priv_setBrightness_eq Let_def clamp_def brightness_command_def try_catch_def
        timeout_channel_def bind_eq [of "priv_send _ _"] priv_send_eq send_packet_def emit_def
        brightness_updates_def buildSicpPacket_def packet_body_def checksum_loop_def
        Buffer_from_def)

end
